theory Spec2Isabelle
  imports Complex_Main "HOL-Library.Word"
begin

section \<open>Well-pump controller: data model\<close>

text \<open>
  A shallow embedding of \<^verbatim>\<open>Controle_Poco_Com_Autocalibracao_e_Filter.ino\<close>.
  The sketch keeps all of its state in global variables; the model collects them in the
  record \<open>estado\<close> and passes it explicitly. What the sketch receives from the hardware
  (\<^verbatim>\<open>digitalRead\<close>, \<^verbatim>\<open>analogRead\<close>, \<^verbatim>\<open>millis\<close>) is an argument of the
  function that reads it; what it sends (\<^verbatim>\<open>digitalWrite\<close>, \<^verbatim>\<open>Serial.print\<close>) is
  recorded in the state: one field per output pin and the list of serial messages.

  \<^item> \<^verbatim>\<open>unsigned long\<close> is a 32-bit word, so the subtraction of two clock values wraps
    around as it does on the board.
  \<^item> \<^verbatim>\<open>bool\<close> pin levels: \<open>HIGH\<close> is \<open>True\<close>, \<open>LOW\<close> is \<open>False\<close>.
  \<^item> \<^verbatim>\<open>long\<close> is 32 bits wide: the two accumulators of the sampling routine
    wrap around.
  \<^item> \<^verbatim>\<open>float\<close> values are \<open>real\<close> numbers. The filter update is modelled with the
    rounding of IEEE single precision after each operation. The sampling and calibration
    arithmetic is idealised (no rounding), and only properties that do not depend on
    rounding are stated on it (comparisons against a threshold, the sign of a result,
    which branch assigns, the quotient of a value by itself). Infinities and NaN are not
    values of the model; where the code can produce a NaN, the text says so.
\<close>

type_synonym ulong = "32 word"

abbreviation (input) HIGH :: bool where "HIGH \<equiv> True"
abbreviation (input) LOW :: bool where "LOW \<equiv> False"

datatype EstadoPoco =
  POCO_CHEIO | POCO_DESCENDO | POCO_VAZIO | POCO_ENCHENDO | SENSOR_FALHA | FALHA_ELETRICA

text \<open>One constructor per distinct line the sketch writes to the serial port.\<close>

datatype msg =
    MsgBanner
  | MsgIniciandoAutocalibracao
  | MsgAutocalibrado real real
  | MsgBombaLigada
  | MsgBombaDesligada
  | MsgLeitura real real
  | MsgFalhaSensorInferior
  | MsgPocoCheio
  | MsgComecandoEncher
  | MsgVazioAguardando
  | MsgAindaVazio
  | MsgEnchendo
  | MsgNivelDescendo
  | MsgPocoSecou
  | MsgMantendoCheio
  | MsgNivelCritico
  | MsgReabastecido
  | MsgAindaComAgua
  | MsgFalhaResolvida
  | MsgAguardandoCorrecao
  | MsgTransicao EstadoPoco EstadoPoco
  | MsgModoAutomatico
  | MsgSistemaPronto
  | MsgPlotter real real

record estado =
  estadoBotaoEstavel :: bool
  ultimoEstadoLido :: bool
  ultimoTempoTroca :: ulong
  estadoBotaoCalibEstavel :: bool
  ultimoEstadoCalibLido :: bool
  ultimoTempoCalib :: ulong
  modoAutomatico :: bool
  bombaLigada :: bool
  estadoAtual :: EstadoPoco
  estadoAnterior :: EstadoPoco
  ganhoMin :: real
  ganhoMax :: real
  filtroVmin :: real
  filtroVmax :: real
  ultimaLeitura :: ulong
  pino_bombaPin :: bool
  pino_Bomba :: bool
  pino_ledModo :: bool
  serial :: "msg list"

text \<open>The initialisers of the global variables (output pins read low before \<open>setup\<close>).\<close>

definition estado_inicial :: estado where
  "estado_inicial =
     \<lparr> estadoBotaoEstavel = HIGH, ultimoEstadoLido = HIGH, ultimoTempoTroca = 0,
       estadoBotaoCalibEstavel = HIGH, ultimoEstadoCalibLido = HIGH, ultimoTempoCalib = 0,
       modoAutomatico = False, bombaLigada = False,
       estadoAtual = POCO_VAZIO, estadoAnterior = POCO_VAZIO,
       ganhoMin = 1, ganhoMax = 1, filtroVmin = 0, filtroVmax = 0,
       ultimaLeitura = 0,
       pino_bombaPin = LOW, pino_Bomba = LOW, pino_ledModo = LOW,
       serial = [] \<rparr>"

definition tempoDebounce :: ulong where
  "tempoDebounce = 50"

definition calibrationFactor :: real where
  "calibrationFactor = 242"

definition LIMITE_MOLHADO :: real where
  "LIMITE_MOLHADO = 4.5"

definition LIMITE_SECO :: real where
  "LIMITE_SECO = 8"

text \<open>\<^verbatim>\<open>Serial.println\<close>: the message is appended to what was sent so far.\<close>

definition imprimir :: "msg \<Rightarrow> estado \<Rightarrow> estado" where
  "imprimir m st = st\<lparr>serial := serial st @ [m]\<rparr>"

section \<open>Pump and well state\<close>

definition ligarBomba :: "estado \<Rightarrow> estado" where
  "ligarBomba st =
     (if \<not> bombaLigada st
      then imprimir MsgBombaLigada
             (st\<lparr>bombaLigada := True, pino_bombaPin := HIGH, pino_Bomba := HIGH\<rparr>)
      else st)"

definition desligarBomba :: "estado \<Rightarrow> estado" where
  "desligarBomba st =
     (if bombaLigada st
      then imprimir MsgBombaDesligada
             (st\<lparr>bombaLigada := False, pino_bombaPin := LOW, pino_Bomba := LOW\<rparr>)
      else st)"

text \<open>
  The tail of \<open>atualizarEstado\<close>, after the \<^verbatim>\<open>switch\<close>: the transition line is printed
  when the state differs from the one saved on entry.
\<close>

definition relatarTransicao :: "estado \<Rightarrow> estado" where
  "relatarTransicao st =
     (if estadoAtual st \<noteq> estadoAnterior st
      then imprimir (MsgTransicao (estadoAnterior st) (estadoAtual st)) st
      else st)"

text \<open>
  \<open>atualizarEstado\<close>: a probe is wet when its voltage is at most \<open>LIMITE_MOLHADO\<close>. The
  fault test returns before the \<^verbatim>\<open>switch\<close>; the \<^verbatim>\<open>switch\<close> has no case for
  \<open>FALHA_ELETRICA\<close>, which falls through unchanged.
\<close>

definition atualizarEstado :: "real \<Rightarrow> real \<Rightarrow> estado \<Rightarrow> estado" where
  "atualizarEstado tensaoMin tensaoMax st0 =
     (let eminMolhado = (tensaoMin \<le> LIMITE_MOLHADO);
          emaxMolhado = (tensaoMax \<le> LIMITE_MOLHADO);
          st1 = imprimir (MsgLeitura tensaoMin tensaoMax) st0;
          st = st1\<lparr>estadoAnterior := estadoAtual st1\<rparr>
      in
        if \<not> eminMolhado \<and> emaxMolhado then
          imprimir MsgFalhaSensorInferior (st\<lparr>estadoAtual := SENSOR_FALHA\<rparr>)
        else
          relatarTransicao
            (case estadoAtual st of
               POCO_VAZIO \<Rightarrow>
                 if eminMolhado \<and> emaxMolhado then
                   imprimir MsgPocoCheio (st\<lparr>estadoAtual := POCO_CHEIO\<rparr>)
                 else if eminMolhado \<and> \<not> emaxMolhado then
                   imprimir MsgComecandoEncher (st\<lparr>estadoAtual := POCO_ENCHENDO\<rparr>)
                 else imprimir MsgVazioAguardando st
             | POCO_ENCHENDO \<Rightarrow>
                 if eminMolhado \<and> emaxMolhado then
                   imprimir MsgPocoCheio (st\<lparr>estadoAtual := POCO_CHEIO\<rparr>)
                 else if \<not> eminMolhado \<and> \<not> emaxMolhado then
                   imprimir MsgAindaVazio (st\<lparr>estadoAtual := POCO_VAZIO\<rparr>)
                 else imprimir MsgEnchendo st
             | POCO_CHEIO \<Rightarrow>
                 if eminMolhado \<and> \<not> emaxMolhado then
                   imprimir MsgNivelDescendo (st\<lparr>estadoAtual := POCO_DESCENDO\<rparr>)
                 else if \<not> eminMolhado \<and> \<not> emaxMolhado then
                   imprimir MsgPocoSecou (st\<lparr>estadoAtual := POCO_VAZIO\<rparr>)
                 else imprimir MsgMantendoCheio st
             | POCO_DESCENDO \<Rightarrow>
                 if \<not> eminMolhado \<and> \<not> emaxMolhado then
                   imprimir MsgNivelCritico (st\<lparr>estadoAtual := POCO_VAZIO\<rparr>)
                 else if eminMolhado \<and> emaxMolhado then
                   imprimir MsgReabastecido (st\<lparr>estadoAtual := POCO_CHEIO\<rparr>)
                 else imprimir MsgAindaComAgua st
             | SENSOR_FALHA \<Rightarrow>
                 if eminMolhado \<or> \<not> emaxMolhado then
                   (imprimir MsgFalhaResolvida st)\<lparr>estadoAtual := POCO_VAZIO\<rparr>
                 else imprimir MsgAguardandoCorrecao st
             | FALHA_ELETRICA \<Rightarrow> st))"

definition controlarBomba :: "estado \<Rightarrow> estado" where
  "controlarBomba st =
     (if estadoAtual st = FALHA_ELETRICA \<or> estadoAtual st = SENSOR_FALHA then
        desligarBomba st
      else
        (case estadoAtual st of
           POCO_CHEIO \<Rightarrow> ligarBomba st
         | POCO_DESCENDO \<Rightarrow> ligarBomba st
         | POCO_VAZIO \<Rightarrow> desligarBomba st
         | POCO_ENCHENDO \<Rightarrow> desligarBomba st
         | _ \<Rightarrow> st))"

section \<open>Buttons with debounce\<close>

text \<open>
  \<open>verificarBotao\<close> and \<open>verificarBotaoCalib\<close>: the arguments are what \<^verbatim>\<open>digitalRead\<close>
  and \<^verbatim>\<open>millis\<close> return in the call; the result is the returned flag and the state.
  The subtraction and the comparison are those of \<^verbatim>\<open>unsigned long\<close>.
\<close>

definition verificarBotao :: "bool \<Rightarrow> ulong \<Rightarrow> estado \<Rightarrow> bool \<times> estado" where
  "verificarBotao leituraAtual agora st0 =
     (let st = (if leituraAtual \<noteq> ultimoEstadoLido st0
                then st0\<lparr>ultimoTempoTroca := agora, ultimoEstadoLido := leituraAtual\<rparr>
                else st0)
      in if agora - ultimoTempoTroca st > tempoDebounce \<and> leituraAtual \<noteq> estadoBotaoEstavel st
         then (True, st\<lparr>estadoBotaoEstavel := leituraAtual\<rparr>)
         else (False, st))"

definition verificarBotaoCalib :: "bool \<Rightarrow> ulong \<Rightarrow> estado \<Rightarrow> bool \<times> estado" where
  "verificarBotaoCalib leituraAtual agora st0 =
     (let st = (if leituraAtual \<noteq> ultimoEstadoCalibLido st0
                then st0\<lparr>ultimoTempoCalib := agora, ultimoEstadoCalibLido := leituraAtual\<rparr>
                else st0)
      in if agora - ultimoTempoCalib st > tempoDebounce \<and> leituraAtual \<noteq> estadoBotaoCalibEstavel st
         then (True, st\<lparr>estadoBotaoCalibEstavel := leituraAtual\<rparr>)
         else (False, st))"

text \<open>
  A sequence of polls of the mode button: each element is the level read and the clock
  value of one call. The result lists the flags returned, in order, with the final state.
\<close>

fun sondagens :: "(bool \<times> ulong) list \<Rightarrow> estado \<Rightarrow> bool list \<times> estado" where
  "sondagens [] st = ([], st)"
| "sondagens ((leitura, agora) # ps) st =
     (let (mudou, st1) = verificarBotao leitura agora st;
          (ms, st2) = sondagens ps st1
      in (mudou # ms, st2))"

text \<open>
  Rapid toggling, as a property of the polled input alone: \<open>anterior\<close> is the level of the
  previous poll and \<open>troca\<close> the clock value of the poll that saw the latest level change
  (\<open>None\<close> before the first change). Every poll that sees the level unchanged lies within
  the debounce window of that change, so each change is followed by the next one (or by
  the end of the sequence) before the window has passed.
\<close>

fun trocas_rapidas :: "bool \<Rightarrow> ulong option \<Rightarrow> (bool \<times> ulong) list \<Rightarrow> bool" where
  "trocas_rapidas anterior troca [] = True"
| "trocas_rapidas anterior troca ((leitura, agora) # ps) =
     (if leitura \<noteq> anterior then trocas_rapidas leitura (Some agora) ps
      else (case troca of None \<Rightarrow> True | Some t \<Rightarrow> agora - t \<le> tempoDebounce)
           \<and> trocas_rapidas anterior troca ps)"

text \<open>
  The clock value from which the debouncer measures how long the level \<open>r\<close> has been
  held, when the polls at the clock values \<open>ts\<close> all read \<open>r\<close>: the stored time of the last
  change if \<open>r\<close> was already the last level read, the time of the first poll otherwise.
\<close>

definition instante_troca :: "bool \<Rightarrow> ulong list \<Rightarrow> estado \<Rightarrow> ulong" where
  "instante_troca r ts st =
     (if ultimoEstadoLido st = r then ultimoTempoTroca st
      else (case ts of [] \<Rightarrow> ultimoTempoTroca st | t # _ \<Rightarrow> t))"

section \<open>Single-precision rounding\<close>

text \<open>
  Rounding to the nearest single-precision value, ties to the even significand, as the
  arithmetic of \<^verbatim>\<open>float\<close> does after each operation. A value with
  \<open>2 ^ e \<le> \<bar>x\<bar> < 2 ^ (e + 1)\<close> is rounded to a multiple of \<open>2 ^ (e - 23)\<close>; below
  \<open>2 ^ (- 126)\<close> the spacing stays \<open>2 ^ (- 149)\<close> (subnormal values). Overflow to infinity
  (from \<open>2 ^ 128\<close> on) is not modelled.
\<close>

definition arred_par :: "real \<Rightarrow> int" where
  "arred_par q =
     (let f = \<lfloor>q\<rfloor>; d = q - of_int f
      in if d < 1 / 2 then f else if 1 / 2 < d then f + 1 else if even f then f else f + 1)"

text \<open>
  The binary exponent of a non-negative value, found by halving or doubling it into
  \<open>[1, 2)\<close>, in at most \<open>n\<close> steps.
\<close>

fun expoente_aux :: "nat \<Rightarrow> real \<Rightarrow> int" where
  "expoente_aux 0 x = 0"
| "expoente_aux (Suc n) x =
     (if 2 \<le> x then expoente_aux n (x / 2) + 1
      else if x < 1 then expoente_aux n (2 * x) - 1
      else 0)"

definition expoente :: "real \<Rightarrow> int" where
  "expoente x = expoente_aux 300 \<bar>x\<bar>"

definition ulp32 :: "real \<Rightarrow> real" where
  "ulp32 x = 2 powi (max (expoente x) (- 126) - 23)"

definition arred32 :: "real \<Rightarrow> real" where
  "arred32 x = of_int (arred_par (x / ulp32 x)) * ulp32 x"

text \<open>
  \<^verbatim>\<open>const float alpha = 0.2\<close> is the single-precision value nearest to 0.2, and
  \<^verbatim>\<open>(1 - alpha)\<close> the rounded difference: \<open>13421773 / 2 ^ 26\<close> and \<open>13421773 / 2 ^ 24\<close>,
  whose sum is \<open>1 + 1 / 2 ^ 26\<close>.
\<close>

definition alpha :: real where
  "alpha = arred32 0.2"

definition um_menos_alpha :: real where
  "um_menos_alpha = arred32 (1 - alpha)"

section \<open>Sampling, filter and calibration\<close>

text \<open>
  One call of \<open>lerTensaoAC_RMS_comOffset\<close> reads the pin 250 times for the offset and 250
  times for the sum of squares: \<open>primeira am i\<close> and \<open>segunda am i\<close> are the values
  \<^verbatim>\<open>analogRead\<close> returns in iteration \<open>i\<close> of the first and of the second loop.
\<close>

record amostragem =
  primeira :: "nat \<Rightarrow> int"
  segunda :: "nat \<Rightarrow> int"

definition amostras :: nat where
  "amostras = 250"

text \<open>The cast \<^verbatim>\<open>(long)\<close> of a \<^verbatim>\<open>float\<close> drops the fraction, towards zero.\<close>

definition truncar :: "real \<Rightarrow> int" where
  "truncar x = (if 0 \<le> x then \<lfloor>x\<rfloor> else \<lceil>x\<rceil>)"

text \<open>
  A \<^verbatim>\<open>long\<close> holds 32 bits: a sum that leaves the range from \<open>- 2 ^ 31\<close> to
  \<open>2 ^ 31 - 1\<close> wraps around. \<open>somar_long f n\<close> is the accumulator after \<open>n\<close> iterations of
  \<^verbatim>\<open>soma += f(i)\<close>, started at 0.
\<close>

definition envolver32 :: "int \<Rightarrow> int" where
  "envolver32 x = (x + 2 ^ 31) mod 2 ^ 32 - 2 ^ 31"

fun somar_long :: "(nat \<Rightarrow> int) \<Rightarrow> nat \<Rightarrow> int" where
  "somar_long f 0 = 0"
| "somar_long f (Suc n) = envolver32 (somar_long f n + f n)"

text \<open>
  The first loop of \<open>lerTensaoAC_RMS_comOffset\<close> and the offset it yields, then the second
  loop: the value of \<^verbatim>\<open>somaQ\<close> when it ends.
\<close>

definition offsetDinamico :: "amostragem \<Rightarrow> real" where
  "offsetDinamico am =
     (let somaLeit = somar_long (primeira am) amostras
      in real_of_int somaLeit / real amostras)"

definition somaQuadrados :: "amostragem \<Rightarrow> int" where
  "somaQuadrados am =
     (let offset = offsetDinamico am
      in somar_long (\<lambda>i. let c = real_of_int (segunda am i) - offset
                         in truncar (c * c)) amostras)"

text \<open>
  When \<^verbatim>\<open>somaQ\<close> has wrapped to a negative value, the \<^verbatim>\<open>sqrt\<close> of the code returns NaN,
  which compares false with every number; the \<open>sqrt\<close> of the model returns a negative
  number there. With samples of a 10-bit converter \<^verbatim>\<open>somaQ\<close> cannot wrap.
\<close>

definition lerTensaoAC_RMS_comOffset :: "amostragem \<Rightarrow> real" where
  "lerTensaoAC_RMS_comOffset am =
     (let somaQ = somaQuadrados am;
          rms_counts = sqrt (real_of_int somaQ / real amostras);
          tensaoSensor = (rms_counts * 2.5) / 512
      in tensaoSensor * calibrationFactor)"

text \<open>
  The samples of a 10-bit converter, as on the board the constants \<open>2.5\<close> and \<open>512\<close> of
  the conversion are written for: every value read lies between 0 and 1023.
\<close>

definition amostragem_adc :: "amostragem \<Rightarrow> bool" where
  "amostragem_adc am =
     (\<forall>i \<in> {..<amostras}. 0 \<le> primeira am i \<and> primeira am i \<le> 1023
                           \<and> 0 \<le> segunda am i \<and> segunda am i \<le> 1023)"

definition calibracao_adc :: "(nat \<Rightarrow> amostragem) \<Rightarrow> bool" where
  "calibracao_adc ams = (\<forall>i \<in> {..<8}. amostragem_adc (ams i))"

text \<open>
  The filter update \<^verbatim>\<open>alpha * v + (1 - alpha) * filtro\<close> in single precision: each
  product is rounded, and then their sum (no fused multiply-add).
\<close>

definition atualizarFiltro :: "real \<Rightarrow> real \<Rightarrow> real" where
  "atualizarFiltro v filtro =
     arred32 (arred32 (alpha * v) + arred32 (um_menos_alpha * filtro))"

text \<open>
  \<open>lerFiltradoComGanho\<close> writes the new filter value through its reference parameter and
  returns it: the model returns the value, and the caller stores it in the filter.
\<close>

definition lerFiltradoComGanho :: "amostragem \<Rightarrow> real \<Rightarrow> real \<Rightarrow> real" where
  "lerFiltradoComGanho am filtro ganhoCanal =
     (let v = arred32 (lerTensaoAC_RMS_comOffset am * ganhoCanal)
      in atualizarFiltro v filtro)"

text \<open>
  \<open>autoCalibrar\<close>, in three parts. The busy wait of two seconds at its start changes no
  variable and is left out. \<open>mediaCalibracao\<close> is the loop of \<open>N = 8\<close> readings of one
  channel and the division by \<open>N\<close>; \<open>ajustarGanhos\<close> is the target and the two guarded
  assignments.
\<close>

definition mediaCalibracao :: "(nat \<Rightarrow> amostragem) \<Rightarrow> real" where
  "mediaCalibracao ams =
     sum_list (map (\<lambda>i. lerTensaoAC_RMS_comOffset (ams i)) [0..<8]) / 8"

definition ajustarGanhos :: "real \<Rightarrow> real \<Rightarrow> estado \<Rightarrow> estado" where
  "ajustarGanhos vmin vmax st =
     (let alvo = (vmin + vmax) / 2;
          st1 = (if vmin > 0.1 then st\<lparr>ganhoMin := alvo / vmin\<rparr> else st);
          st2 = (if vmax > 0.1 then st1\<lparr>ganhoMax := alvo / vmax\<rparr> else st1)
      in st2)"

definition autoCalibrar :: "(nat \<Rightarrow> amostragem) \<Rightarrow> (nat \<Rightarrow> amostragem) \<Rightarrow> estado \<Rightarrow> estado" where
  "autoCalibrar amsMin amsMax st0 =
     (let st1 = imprimir MsgIniciandoAutocalibracao st0;
          vmin = mediaCalibracao amsMin;
          vmax = mediaCalibracao amsMax;
          st2 = ajustarGanhos vmin vmax st1
      in imprimir (MsgAutocalibrado (ganhoMin st2) (ganhoMax st2)) st2)"

definition autoCalibrarSeBotaoPressionado ::
  "bool \<Rightarrow> (nat \<Rightarrow> amostragem) \<Rightarrow> (nat \<Rightarrow> amostragem) \<Rightarrow> estado \<Rightarrow> estado" where
  "autoCalibrarSeBotaoPressionado leitura amsMin amsMax st =
     (if leitura = LOW then autoCalibrar amsMin amsMax st else st)"

section \<open>Setup and main loop\<close>

text \<open>
  \<open>setup\<close>: the banner, the three output pins driven low, then the single read of the mode
  button. \<open>leitura\<close> is the level that read returns.
\<close>

definition setup_prog ::
  "bool \<Rightarrow> (nat \<Rightarrow> amostragem) \<Rightarrow> (nat \<Rightarrow> amostragem) \<Rightarrow> estado \<Rightarrow> estado" where
  "setup_prog leitura amsMin amsMax st0 =
     (let st1 = imprimir MsgBanner st0;
          st2 = st1\<lparr>pino_bombaPin := LOW, pino_ledModo := LOW, pino_Bomba := LOW\<rparr>
      in autoCalibrarSeBotaoPressionado leitura amsMin amsMax st2)"

text \<open>What one iteration of \<open>loop\<close> receives from the hardware, in the order it asks.\<close>

record entrada =
  leituraBotao :: bool
  agoraBotao :: ulong
  leituraBotaoCalib :: bool
  agoraBotaoCalib :: ulong
  calibMin :: "nat \<Rightarrow> amostragem"
  calibMax :: "nat \<Rightarrow> amostragem"
  agoraLeitura :: ulong
  amostraMin :: amostragem
  amostraMax :: amostragem

definition tempoDecorrido :: "ulong \<Rightarrow> ulong \<Rightarrow> estado \<Rightarrow> bool \<times> estado" where
  "tempoDecorrido intervalo agora st =
     (if agora - ultimaLeitura st \<ge> intervalo
      then (True, st\<lparr>ultimaLeitura := agora\<rparr>)
      else (False, st))"

text \<open>The body of the first \<^verbatim>\<open>if\<close> of \<open>loop\<close>: the mode is toggled.\<close>

definition alternarModo :: "estado \<Rightarrow> estado" where
  "alternarModo st0 =
     (let st1 = st0\<lparr>modoAutomatico := \<not> modoAutomatico st0\<rparr>;
          st2 = st1\<lparr>pino_ledModo := (if modoAutomatico st1 then HIGH else LOW)\<rparr>
      in if modoAutomatico st2 then imprimir MsgModoAutomatico st2
         else desligarBomba (imprimir MsgSistemaPronto st2))"

text \<open>The two button blocks of \<open>loop\<close>: mode toggle, then manual calibration.\<close>

definition tratarBotoes :: "entrada \<Rightarrow> estado \<Rightarrow> estado" where
  "tratarBotoes e st0 =
     (let (mudou, st1) = verificarBotao (leituraBotao e) (agoraBotao e) st0;
          st2 = (if mudou \<and> estadoBotaoEstavel st1 = LOW then alternarModo st1 else st1);
          (mudouCalib, st3) = verificarBotaoCalib (leituraBotaoCalib e) (agoraBotaoCalib e) st2
      in if mudouCalib \<and> estadoBotaoCalibEstavel st3 = LOW
         then autoCalibrar (calibMin e) (calibMax e) st3
         else st3)"

text \<open>The body of the last \<^verbatim>\<open>if\<close> of \<open>loop\<close>: sampling, state update, pump, plotter line.\<close>

definition cicloControle :: "entrada \<Rightarrow> estado \<Rightarrow> estado" where
  "cicloControle e st0 =
     (let tensaoMin = lerFiltradoComGanho (amostraMin e) (filtroVmin st0) (ganhoMin st0);
          st1 = st0\<lparr>filtroVmin := tensaoMin\<rparr>;
          tensaoMax = lerFiltradoComGanho (amostraMax e) (filtroVmax st1) (ganhoMax st1);
          st2 = st1\<lparr>filtroVmax := tensaoMax\<rparr>;
          st3 = atualizarEstado tensaoMin tensaoMax st2;
          st4 = controlarBomba st3
      in imprimir (MsgPlotter (filtroVmin st4) (filtroVmax st4)) st4)"

text \<open>
  \<open>loop\<close>: \<^verbatim>\<open>modoAutomatico && tempoDecorrido(300)\<close> evaluates \<open>tempoDecorrido\<close> (which
  stores the clock value when it answers true) only in automatic mode.
\<close>

definition loop :: "entrada \<Rightarrow> estado \<Rightarrow> estado" where
  "loop e st0 =
     (let st1 = tratarBotoes e st0
      in if modoAutomatico st1 then
           (let (passou, st2) = tempoDecorrido 300 (agoraLeitura e) st1
            in if passou then cicloControle e st2 else st2)
         else st1)"

text \<open>A run of the program after \<open>setup\<close>: one iteration of \<open>loop\<close> per input, in order.\<close>

fun executar :: "entrada list \<Rightarrow> estado \<Rightarrow> estado" where
  "executar [] st = st"
| "executar (e # es) st = executar es (loop e st)"

text \<open>
  Power-on: the global variables hold their initialisers and \<open>setup\<close> runs. \<open>sinal\<close> is the
  level of the mode button's pin at each millisecond after power-on and \<open>instante\<close> the
  millisecond at which \<open>autoCalibrarSeBotaoPressionado\<close> reads the pin.
\<close>

definition arranque ::
  "(nat \<Rightarrow> bool) \<Rightarrow> nat \<Rightarrow> (nat \<Rightarrow> amostragem) \<Rightarrow> (nat \<Rightarrow> amostragem) \<Rightarrow> estado" where
  "arranque sinal instante amsMin amsMax =
     setup_prog (sinal instante) amsMin amsMax estado_inicial"

text \<open>The calibration procedure ran: its opening line is on the serial port.\<close>

definition calibrou :: "estado \<Rightarrow> bool" where
  "calibrou st = (MsgIniciandoAutocalibracao \<in> set (serial st))"

text \<open>
  The grace window of the specification's start-up trigger: the mode input, as a level
  for each millisecond after power-on, is held active (low) for the first two seconds,
  the duration the sketch's banner asks for.
\<close>

definition janela_spec :: nat where
  "janela_spec = 2000"

definition mantido_na_janela_spec :: "(nat \<Rightarrow> bool) \<Rightarrow> bool" where
  "mantido_na_janela_spec sinal = (\<forall>t \<in> {..<janela_spec}. sinal t = LOW)"

text \<open>
  The samples that can reach the gains in one iteration of \<open>loop\<close> are those of a manual
  calibration.
\<close>

definition entrada_adc :: "entrada \<Rightarrow> bool" where
  "entrada_adc e = (calibracao_adc (calibMin e) \<and> calibracao_adc (calibMax e))"

text \<open>
  The filter fed with the constant input \<open>v\<close> from the state \<open>s\<close>: the value after \<open>n\<close>
  updates.
\<close>

fun iterarFiltro :: "nat \<Rightarrow> real \<Rightarrow> real \<Rightarrow> real" where
  "iterarFiltro 0 v s = s"
| "iterarFiltro (Suc n) v s = atualizarFiltro v (iterarFiltro n v s)"

text \<open>The update as the specification words it, in exact arithmetic.\<close>

definition filtro_exato_spec :: "real \<Rightarrow> real \<Rightarrow> real" where
  "filtro_exato_spec v s = 0.2 * v + 0.8 * s"

text \<open>
  The rounding error allowed to one update from the state \<open>s\<close> with the input \<open>v\<close>: a
  relative \<open>1 / 2 ^ 22\<close> of the larger magnitude, and an absolute \<open>1 / 2 ^ 148\<close> for
  subnormal results.
\<close>

definition tolerancia :: "real \<Rightarrow> real \<Rightarrow> real" where
  "tolerancia v s = max \<bar>v\<bar> \<bar>s\<bar> / 2 ^ 22 + 1 / 2 ^ 148"

text \<open>
  A run of the state machine: one call of \<open>atualizarEstado\<close> per pair of voltages, in
  order.
\<close>

fun passos :: "(real \<times> real) list \<Rightarrow> estado \<Rightarrow> estado" where
  "passos [] st = st"
| "passos ((tensaoMin, tensaoMax) # vs) st = passos vs (atualizarEstado tensaoMin tensaoMax st)"

text \<open>
  The transition table as the specification words it, on the two wet flags, for the
  inputs that are not the fault pattern. A pair the table does not list keeps the state.
\<close>

fun tabela_spec :: "EstadoPoco \<Rightarrow> bool \<Rightarrow> bool \<Rightarrow> EstadoPoco" where
  "tabela_spec POCO_VAZIO True True = POCO_CHEIO"
| "tabela_spec POCO_VAZIO True False = POCO_ENCHENDO"
| "tabela_spec POCO_ENCHENDO True True = POCO_CHEIO"
| "tabela_spec POCO_ENCHENDO False False = POCO_VAZIO"
| "tabela_spec POCO_CHEIO True False = POCO_DESCENDO"
| "tabela_spec POCO_CHEIO False False = POCO_VAZIO"
| "tabela_spec POCO_DESCENDO False False = POCO_VAZIO"
| "tabela_spec POCO_DESCENDO True True = POCO_CHEIO"
| "tabela_spec SENSOR_FALHA True _ = POCO_VAZIO"
| "tabela_spec SENSOR_FALHA _ False = POCO_VAZIO"
| "tabela_spec s _ _ = s"

text \<open>The pump policy as the specification words it.\<close>

fun decide_spec :: "EstadoPoco \<Rightarrow> bool" where
  "decide_spec POCO_CHEIO = True"
| "decide_spec POCO_DESCENDO = True"
| "decide_spec POCO_VAZIO = False"
| "decide_spec POCO_ENCHENDO = False"
| "decide_spec SENSOR_FALHA = False"
| "decide_spec FALHA_ELETRICA = False"

section \<open>Example inputs\<close>

text \<open>
  A burst of samples around mid-scale: the first loop reads 512 throughout, the second
  reads \<open>512 + d\<close>, so the RMS is \<open>d\<close> counts.
\<close>

definition amostragem_exemplo :: "int \<Rightarrow> amostragem" where
  "amostragem_exemplo d = \<lparr>primeira = (\<lambda>k. 512), segunda = (\<lambda>k. 512 + d)\<rparr>"


text \<open>One iteration at clock value 100: mode button still low, calibration button released.\<close>

definition entrada_desligar :: entrada where
  "entrada_desligar =
     \<lparr>leituraBotao = LOW, agoraBotao = 100, leituraBotaoCalib = HIGH, agoraBotaoCalib = 100,
      calibMin = (\<lambda>i. amostragem_exemplo 2), calibMax = (\<lambda>i. amostragem_exemplo 4),
      agoraLeitura = 400,
      amostraMin = amostragem_exemplo 2, amostraMax = amostragem_exemplo 4\<rparr>"

text \<open>
  A burst as a 12-bit converter can deliver it: zero throughout the first loop, full
  scale throughout the second.
\<close>

definition amostragem_12bits :: amostragem where
  "amostragem_12bits = \<lparr>primeira = (\<lambda>k. 0), segunda = (\<lambda>k. 4095)\<rparr>"



section \<open>Basic facts about the pump\<close>

lemmas bomba_defs = controlarBomba_def ligarBomba_def desligarBomba_def imprimir_def
lemmas atualizar_defs = atualizarEstado_def relatarTransicao_def imprimir_def Let_def

lemma bombaLigada_controlarBomba:
  "bombaLigada (controlarBomba st) = decide_spec (estadoAtual st)"
  by (simp add: bomba_defs split: EstadoPoco.split)

lemma estadoAtual_controlarBomba:
  "estadoAtual (controlarBomba st) = estadoAtual st"
  by (simp add: bomba_defs split: EstadoPoco.split)

lemma pinos_controlarBomba:
  "pino_bombaPin (controlarBomba st) =
     (if bombaLigada (controlarBomba st) = bombaLigada st then pino_bombaPin st
      else bombaLigada (controlarBomba st))"
  "pino_Bomba (controlarBomba st) =
     (if bombaLigada (controlarBomba st) = bombaLigada st then pino_Bomba st
      else bombaLigada (controlarBomba st))"
  by (cases "estadoAtual st"; cases "bombaLigada st"; simp add: bomba_defs)+

lemma cicloControle_bomba:
  "bombaLigada (cicloControle e st) = decide_spec (estadoAtual (cicloControle e st))"
  by (simp add: cicloControle_def Let_def imprimir_def bombaLigada_controlarBomba
      estadoAtual_controlarBomba)

section \<open>The pump policy\<close>

text \<open>
  Claim C1. After \<open>controlarBomba\<close>, and so at the end of every control cycle (state
  update, then pump decision), the pump flag is the policy's value at the current well
  state: off in \<open>SENSOR_FALHA\<close> and \<open>FALHA_ELETRICA\<close> whatever it was before, on in
  \<open>POCO_CHEIO\<close> and \<open>POCO_DESCENDO\<close>, off in \<open>POCO_VAZIO\<close> and \<open>POCO_ENCHENDO\<close>. The well
  state is not touched, and each of the two pump pins is written with the new flag
  exactly when the flag changes.
\<close>

theorem controlarBomba_politica:
  "bombaLigada (controlarBomba st) = decide_spec (estadoAtual st)
   \<and> estadoAtual (controlarBomba st) = estadoAtual st
   \<and> bombaLigada (cicloControle e st) = decide_spec (estadoAtual (cicloControle e st))
   \<and> pino_bombaPin (controlarBomba st) =
       (if bombaLigada (controlarBomba st) = bombaLigada st then pino_bombaPin st
        else bombaLigada (controlarBomba st))
   \<and> pino_Bomba (controlarBomba st) =
       (if bombaLigada (controlarBomba st) = bombaLigada st then pino_Bomba st
        else bombaLigada (controlarBomba st))"
  using bombaLigada_controlarBomba [of st] estadoAtual_controlarBomba [of st]
    cicloControle_bomba [of e st] pinos_controlarBomba [of st]
  by simp

text \<open>
  The policy at concrete states: a running pump is stopped in either fault state, and
  its pin is driven low; a stopped pump is started in \<open>POCO_DESCENDO\<close>.
\<close>

theorem controlarBomba_politica_witness:
  "bombaLigada (controlarBomba (estado_inicial\<lparr>estadoAtual := SENSOR_FALHA, bombaLigada := True,
       pino_bombaPin := HIGH, pino_Bomba := HIGH\<rparr>)) = False
   \<and> pino_bombaPin (controlarBomba (estado_inicial\<lparr>estadoAtual := SENSOR_FALHA, bombaLigada := True,
       pino_bombaPin := HIGH, pino_Bomba := HIGH\<rparr>)) = LOW
   \<and> bombaLigada (controlarBomba (estado_inicial\<lparr>estadoAtual := FALHA_ELETRICA, bombaLigada := True\<rparr>)) = False
   \<and> bombaLigada (controlarBomba (estado_inicial\<lparr>estadoAtual := POCO_DESCENDO\<rparr>)) = True"
  using controlarBomba_politica [of "estado_inicial\<lparr>estadoAtual := SENSOR_FALHA, bombaLigada := True,
       pino_bombaPin := HIGH, pino_Bomba := HIGH\<rparr>"]
    controlarBomba_politica [of "estado_inicial\<lparr>estadoAtual := FALHA_ELETRICA, bombaLigada := True\<rparr>"]
    controlarBomba_politica [of "estado_inicial\<lparr>estadoAtual := POCO_DESCENDO\<rparr>"]
  by simp

section \<open>The well state machine\<close>

text \<open>
  Claim C2. Whatever the current state, a step whose lower probe reads dry while the
  upper one reads wet ends in \<open>SENSOR_FALHA\<close>. The step returns at once: the whole
  effect is the saved previous state, the new state and two serial lines (the reading
  and the fault), with no line of the \<^verbatim>\<open>switch\<close> and no transition line.
\<close>

theorem falha_domina:
  "\<not> tensaoMin \<le> LIMITE_MOLHADO \<and> tensaoMax \<le> LIMITE_MOLHADO \<Longrightarrow>
   atualizarEstado tensaoMin tensaoMax st =
     st\<lparr>estadoAnterior := estadoAtual st, estadoAtual := SENSOR_FALHA,
        serial := serial st @ [MsgLeitura tensaoMin tensaoMax, MsgFalhaSensorInferior]\<rparr>"
  by (simp add: atualizar_defs)

text \<open>Scenario C of the specification: from \<open>POCO_CHEIO\<close>, lower probe dry, upper wet.\<close>

theorem falha_domina_witness:
  "estadoAtual (atualizarEstado 10 0 (estado_inicial\<lparr>estadoAtual := POCO_CHEIO\<rparr>)) = SENSOR_FALHA
   \<and> serial (atualizarEstado 10 0 (estado_inicial\<lparr>estadoAtual := POCO_CHEIO\<rparr>))
       = [MsgLeitura 10 0, MsgFalhaSensorInferior]"
  using falha_domina [of 10 0 "estado_inicial\<lparr>estadoAtual := POCO_CHEIO\<rparr>"]
  by (simp add: LIMITE_MOLHADO_def estado_inicial_def)

text \<open>
  Claim C3. On every input that is not the fault pattern, the step ends in the state the
  specification's transition table gives for the current state and the two wet flags;
  a pair the table does not list keeps the state.
\<close>

theorem tabela_transicoes:
  "\<not> (\<not> tensaoMin \<le> LIMITE_MOLHADO \<and> tensaoMax \<le> LIMITE_MOLHADO) \<Longrightarrow>
   estadoAtual (atualizarEstado tensaoMin tensaoMax st) =
     tabela_spec (estadoAtual st) (tensaoMin \<le> LIMITE_MOLHADO) (tensaoMax \<le> LIMITE_MOLHADO)"
  by (cases "estadoAtual st"; cases "tensaoMin \<le> LIMITE_MOLHADO"; cases "tensaoMax \<le> LIMITE_MOLHADO";
      simp add: atualizar_defs)

text \<open>
  Scenarios D, A and B of the specification, and a pair the table does not list:
  recovery from \<open>SENSOR_FALHA\<close> on two wet probes goes to \<open>POCO_VAZIO\<close>.
\<close>

theorem tabela_transicoes_witness:
  "estadoAtual (atualizarEstado 0 0 (estado_inicial\<lparr>estadoAtual := SENSOR_FALHA\<rparr>)) = POCO_VAZIO
   \<and> estadoAtual (atualizarEstado 0 0 estado_inicial) = POCO_CHEIO
   \<and> estadoAtual (atualizarEstado 0 10 (estado_inicial\<lparr>estadoAtual := POCO_CHEIO\<rparr>)) = POCO_DESCENDO
   \<and> estadoAtual (atualizarEstado 0 10 (estado_inicial\<lparr>estadoAtual := POCO_DESCENDO\<rparr>)) = POCO_DESCENDO"
  using tabela_transicoes [of 0 0 "estado_inicial\<lparr>estadoAtual := SENSOR_FALHA\<rparr>"]
    tabela_transicoes [of 0 0 estado_inicial]
    tabela_transicoes [of 0 10 "estado_inicial\<lparr>estadoAtual := POCO_CHEIO\<rparr>"]
    tabela_transicoes [of 0 10 "estado_inicial\<lparr>estadoAtual := POCO_DESCENDO\<rparr>"]
  by (simp add: LIMITE_MOLHADO_def estado_inicial_def)

section \<open>What each operation leaves unchanged\<close>

lemma imprimir_quadro:
  "modoAutomatico (imprimir m st) = modoAutomatico st"
  "bombaLigada (imprimir m st) = bombaLigada st"
  "estadoAtual (imprimir m st) = estadoAtual st"
  "estadoAnterior (imprimir m st) = estadoAnterior st"
  "filtroVmin (imprimir m st) = filtroVmin st"
  "filtroVmax (imprimir m st) = filtroVmax st"
  "ganhoMin (imprimir m st) = ganhoMin st"
  "ganhoMax (imprimir m st) = ganhoMax st"
  "pino_bombaPin (imprimir m st) = pino_bombaPin st"
  "pino_Bomba (imprimir m st) = pino_Bomba st"
  by (simp_all add: imprimir_def)

lemma verificarBotao_quadro:
  "modoAutomatico (snd (verificarBotao r t st)) = modoAutomatico st"
  "bombaLigada (snd (verificarBotao r t st)) = bombaLigada st"
  "estadoAtual (snd (verificarBotao r t st)) = estadoAtual st"
  "estadoAnterior (snd (verificarBotao r t st)) = estadoAnterior st"
  "filtroVmin (snd (verificarBotao r t st)) = filtroVmin st"
  "filtroVmax (snd (verificarBotao r t st)) = filtroVmax st"
  "ganhoMin (snd (verificarBotao r t st)) = ganhoMin st"
  "ganhoMax (snd (verificarBotao r t st)) = ganhoMax st"
  "pino_bombaPin (snd (verificarBotao r t st)) = pino_bombaPin st"
  "pino_Bomba (snd (verificarBotao r t st)) = pino_Bomba st"
  by (simp_all add: verificarBotao_def Let_def)

lemma verificarBotaoCalib_quadro:
  "modoAutomatico (snd (verificarBotaoCalib r t st)) = modoAutomatico st"
  "bombaLigada (snd (verificarBotaoCalib r t st)) = bombaLigada st"
  "estadoAtual (snd (verificarBotaoCalib r t st)) = estadoAtual st"
  "estadoAnterior (snd (verificarBotaoCalib r t st)) = estadoAnterior st"
  "filtroVmin (snd (verificarBotaoCalib r t st)) = filtroVmin st"
  "filtroVmax (snd (verificarBotaoCalib r t st)) = filtroVmax st"
  "ganhoMin (snd (verificarBotaoCalib r t st)) = ganhoMin st"
  "ganhoMax (snd (verificarBotaoCalib r t st)) = ganhoMax st"
  "pino_bombaPin (snd (verificarBotaoCalib r t st)) = pino_bombaPin st"
  "pino_Bomba (snd (verificarBotaoCalib r t st)) = pino_Bomba st"
  by (simp_all add: verificarBotaoCalib_def Let_def)

lemma ajustarGanhos_quadro:
  "modoAutomatico (ajustarGanhos vmin vmax st) = modoAutomatico st"
  "bombaLigada (ajustarGanhos vmin vmax st) = bombaLigada st"
  "estadoAtual (ajustarGanhos vmin vmax st) = estadoAtual st"
  "estadoAnterior (ajustarGanhos vmin vmax st) = estadoAnterior st"
  "filtroVmin (ajustarGanhos vmin vmax st) = filtroVmin st"
  "filtroVmax (ajustarGanhos vmin vmax st) = filtroVmax st"
  "pino_bombaPin (ajustarGanhos vmin vmax st) = pino_bombaPin st"
  "pino_Bomba (ajustarGanhos vmin vmax st) = pino_Bomba st"
  by (simp_all add: ajustarGanhos_def Let_def)

lemma autoCalibrar_quadro:
  "modoAutomatico (autoCalibrar a b st) = modoAutomatico st"
  "bombaLigada (autoCalibrar a b st) = bombaLigada st"
  "estadoAtual (autoCalibrar a b st) = estadoAtual st"
  "estadoAnterior (autoCalibrar a b st) = estadoAnterior st"
  "filtroVmin (autoCalibrar a b st) = filtroVmin st"
  "filtroVmax (autoCalibrar a b st) = filtroVmax st"
  "pino_bombaPin (autoCalibrar a b st) = pino_bombaPin st"
  "pino_Bomba (autoCalibrar a b st) = pino_Bomba st"
  by (simp_all add: autoCalibrar_def Let_def imprimir_quadro ajustarGanhos_quadro)

lemma alternarModo_quadro:
  "modoAutomatico (alternarModo st) = (\<not> modoAutomatico st)"
  "bombaLigada (alternarModo st) = (if modoAutomatico st then False else bombaLigada st)"
  "estadoAtual (alternarModo st) = estadoAtual st"
  "estadoAnterior (alternarModo st) = estadoAnterior st"
  "filtroVmin (alternarModo st) = filtroVmin st"
  "filtroVmax (alternarModo st) = filtroVmax st"
  "ganhoMin (alternarModo st) = ganhoMin st"
  "ganhoMax (alternarModo st) = ganhoMax st"
  "pino_bombaPin (alternarModo st) =
     (if modoAutomatico st \<and> bombaLigada st then LOW else pino_bombaPin st)"
  "pino_Bomba (alternarModo st) =
     (if modoAutomatico st \<and> bombaLigada st then LOW else pino_Bomba st)"
  by (simp_all add: alternarModo_def Let_def desligarBomba_def imprimir_def)

lemma tratarBotoes_quadro:
  "estadoAtual (tratarBotoes e st) = estadoAtual st"
  "estadoAnterior (tratarBotoes e st) = estadoAnterior st"
  "filtroVmin (tratarBotoes e st) = filtroVmin st"
  "filtroVmax (tratarBotoes e st) = filtroVmax st"
  by (simp_all add: tratarBotoes_def Let_def split_def autoCalibrar_quadro
      verificarBotaoCalib_quadro alternarModo_quadro verificarBotao_quadro)


lemma atualizarEstado_quadro:
  "modoAutomatico (atualizarEstado a b st) = modoAutomatico st"
  "bombaLigada (atualizarEstado a b st) = bombaLigada st"
  "filtroVmin (atualizarEstado a b st) = filtroVmin st"
  "filtroVmax (atualizarEstado a b st) = filtroVmax st"
  "ganhoMin (atualizarEstado a b st) = ganhoMin st"
  "ganhoMax (atualizarEstado a b st) = ganhoMax st"
  by (cases "estadoAtual st"; simp add: atualizarEstado_def relatarTransicao_def imprimir_def Let_def)+

lemma controlarBomba_quadro:
  "modoAutomatico (controlarBomba st) = modoAutomatico st"
  "filtroVmin (controlarBomba st) = filtroVmin st"
  "filtroVmax (controlarBomba st) = filtroVmax st"
  "ganhoMin (controlarBomba st) = ganhoMin st"
  "ganhoMax (controlarBomba st) = ganhoMax st"
  by (cases "estadoAtual st"; simp add: controlarBomba_def ligarBomba_def desligarBomba_def imprimir_def)+

lemma cicloControle_quadro:
  "modoAutomatico (cicloControle e st) = modoAutomatico st"
  "ganhoMin (cicloControle e st) = ganhoMin st"
  "ganhoMax (cicloControle e st) = ganhoMax st"
  by (simp_all add: cicloControle_def Let_def imprimir_quadro controlarBomba_quadro
      atualizarEstado_quadro)

lemma tempoDecorrido_quadro:
  "modoAutomatico (snd (tempoDecorrido i t st)) = modoAutomatico st"
  "estadoAtual (snd (tempoDecorrido i t st)) = estadoAtual st"
  "ganhoMin (snd (tempoDecorrido i t st)) = ganhoMin st"
  "ganhoMax (snd (tempoDecorrido i t st)) = ganhoMax st"
  by (simp_all add: tempoDecorrido_def)




section \<open>Reachable well states\<close>

lemma atualizar_nao_falha_eletrica:
  "estadoAtual st \<noteq> FALHA_ELETRICA \<Longrightarrow> estadoAtual (atualizarEstado a b st) \<noteq> FALHA_ELETRICA"
  by (cases "estadoAtual st"; simp add: atualizar_defs)

lemma passos_nao_falha_eletrica:
  "estadoAtual st \<noteq> FALHA_ELETRICA \<Longrightarrow> estadoAtual (passos vs st) \<noteq> FALHA_ELETRICA"
proof (induction vs arbitrary: st)
  case Nil
  then show ?case by simp
next
  case (Cons v vs)
  obtain a b where v: "v = (a, b)" by (cases v)
  from Cons.prems have "estadoAtual (atualizarEstado a b st) \<noteq> FALHA_ELETRICA"
    by (rule atualizar_nao_falha_eletrica)
  then have "estadoAtual (passos vs (atualizarEstado a b st)) \<noteq> FALHA_ELETRICA"
    by (rule Cons.IH)
  then show ?case by (simp add: v)
qed

lemma cicloControle_nao_falha_eletrica:
  "estadoAtual st \<noteq> FALHA_ELETRICA \<Longrightarrow> estadoAtual (cicloControle e st) \<noteq> FALHA_ELETRICA"
proof -
  assume a: "estadoAtual st \<noteq> FALHA_ELETRICA"
  have "estadoAtual (cicloControle e st) =
        estadoAtual (atualizarEstado
          (lerFiltradoComGanho (amostraMin e) (filtroVmin st) (ganhoMin st))
          (lerFiltradoComGanho (amostraMax e) (filtroVmax st) (ganhoMax st))
          (st\<lparr>filtroVmin := lerFiltradoComGanho (amostraMin e) (filtroVmin st) (ganhoMin st),
              filtroVmax := lerFiltradoComGanho (amostraMax e) (filtroVmax st) (ganhoMax st)\<rparr>))"
    by (simp add: cicloControle_def Let_def imprimir_quadro estadoAtual_controlarBomba)
  moreover have "estadoAtual (st\<lparr>filtroVmin := lerFiltradoComGanho (amostraMin e) (filtroVmin st) (ganhoMin st),
              filtroVmax := lerFiltradoComGanho (amostraMax e) (filtroVmax st) (ganhoMax st)\<rparr>) \<noteq> FALHA_ELETRICA"
    using a by simp
  ultimately show ?thesis
    by (simp only: atualizar_nao_falha_eletrica not_False_eq_True)
qed

lemma loop_nao_falha_eletrica:
  "estadoAtual st \<noteq> FALHA_ELETRICA \<Longrightarrow> estadoAtual (loop e st) \<noteq> FALHA_ELETRICA"
  by (simp add: loop_def Let_def split_def cicloControle_nao_falha_eletrica
      tempoDecorrido_quadro tratarBotoes_quadro)

lemma executar_nao_falha_eletrica:
  "estadoAtual st \<noteq> FALHA_ELETRICA \<Longrightarrow> estadoAtual (executar es st) \<noteq> FALHA_ELETRICA"
proof (induction es arbitrary: st)
  case Nil
  then show ?case by simp
next
  case (Cons e es)
  from Cons.prems have "estadoAtual (loop e st) \<noteq> FALHA_ELETRICA"
    by (rule loop_nao_falha_eletrica)
  then have "estadoAtual (executar es (loop e st)) \<noteq> FALHA_ELETRICA"
    by (rule Cons.IH)
  then show ?case by simp
qed

lemma estadoAtual_setup_prog:
  "estadoAtual (setup_prog l a b st) = estadoAtual st"
  by (simp add: setup_prog_def autoCalibrarSeBotaoPressionado_def Let_def
      autoCalibrar_quadro imprimir_def)

text \<open>
  Claim C6. From a state whose well state is \<open>POCO_VAZIO\<close>, no sequence of steps of the
  state machine, on any voltages, makes \<open>FALHA_ELETRICA\<close> the current state. The same
  holds of the whole program: after power-on, \<open>setup\<close> and any number of iterations of
  \<open>loop\<close> on any inputs, the well state is not \<open>FALHA_ELETRICA\<close>. No step produces it:
  a step from any other state ends in a state other than \<open>FALHA_ELETRICA\<close>.
\<close>

theorem falha_eletrica_inalcancavel:
  "(estadoAtual st = POCO_VAZIO \<longrightarrow> estadoAtual (passos vs st) \<noteq> FALHA_ELETRICA)
   \<and> estadoAtual (executar es (setup_prog l a b estado_inicial)) \<noteq> FALHA_ELETRICA
   \<and> (estadoAtual st \<noteq> FALHA_ELETRICA \<longrightarrow>
        estadoAtual (atualizarEstado tensaoMin tensaoMax st) \<noteq> FALHA_ELETRICA)"
proof -
  have "estadoAtual (setup_prog l a b estado_inicial) \<noteq> FALHA_ELETRICA"
    by (simp add: estadoAtual_setup_prog estado_inicial_def)
  then have "estadoAtual (executar es (setup_prog l a b estado_inicial)) \<noteq> FALHA_ELETRICA"
    by (rule executar_nao_falha_eletrica)
  moreover have "estadoAtual st = POCO_VAZIO \<longrightarrow> estadoAtual (passos vs st) \<noteq> FALHA_ELETRICA"
    by (simp add: passos_nao_falha_eletrica)
  moreover have "estadoAtual st \<noteq> FALHA_ELETRICA \<longrightarrow>
        estadoAtual (atualizarEstado tensaoMin tensaoMax st) \<noteq> FALHA_ELETRICA"
    using atualizar_nao_falha_eletrica [of st tensaoMin tensaoMax] by blast
  ultimately show ?thesis by simp
qed

text \<open>Two steps from the initial state: both probes wet, then the fault pattern.\<close>

theorem falha_eletrica_inalcancavel_witness:
  "estadoAtual estado_inicial = POCO_VAZIO
   \<and> estadoAtual (passos [(0, 0), (10, 0)] estado_inicial) \<noteq> FALHA_ELETRICA
   \<and> estadoAtual (passos [(0, 0), (10, 0)] estado_inicial) = SENSOR_FALHA"
  using falha_eletrica_inalcancavel [of estado_inicial "[(0, 0), (10, 0)]"]
  by (simp add: estado_inicial_def atualizar_defs LIMITE_MOLHADO_def)

section \<open>Calibration\<close>

lemma truncar_nao_negativo: "0 \<le> x \<Longrightarrow> 0 \<le> truncar x"
  by (simp add: truncar_def)

lemma truncar_limitado: "0 \<le> x \<Longrightarrow> x \<le> real_of_int B \<Longrightarrow> truncar x \<le> B"
  by (simp add: truncar_def floor_le_iff)

lemma envolver32_id: "- (2 ^ 31) \<le> x \<Longrightarrow> x < 2 ^ 31 \<Longrightarrow> envolver32 x = x"
  by (simp add: envolver32_def)

lemma envolver32_soma: "envolver32 (envolver32 a + b) = envolver32 (a + b)"
proof -
  have "(envolver32 a + b + 2 ^ 31) mod 2 ^ 32 = ((a + 2 ^ 31) mod 2 ^ 32 + b) mod 2 ^ 32"
    by (simp add: envolver32_def)
  also have "\<dots> = (a + 2 ^ 31 + b) mod 2 ^ 32"
    by (simp only: mod_add_left_eq)
  also have "\<dots> = (a + b + 2 ^ 31) mod 2 ^ 32"
    by (simp add: algebra_simps)
  finally show ?thesis
    by (simp add: envolver32_def)
qed

lemma somar_long_constante: "somar_long (\<lambda>i. c) n = envolver32 (int n * c)"
proof (induction n)
  case 0
  show ?case by (simp add: envolver32_def)
next
  case (Suc n)
  have "somar_long (\<lambda>i. c) (Suc n) = envolver32 (envolver32 (int n * c) + c)"
    by (simp add: Suc)
  also have "\<dots> = envolver32 (int n * c + c)"
    by (rule envolver32_soma)
  also have "int n * c + c = int (Suc n) * c"
    by (simp add: algebra_simps)
  finally show ?case .
qed

lemma somar_long_limitado:
  "(\<forall>i<n. 0 \<le> f i \<and> f i \<le> B) \<Longrightarrow> int n * B < 2 ^ 31 \<Longrightarrow>
   0 \<le> somar_long f n \<and> somar_long f n \<le> int n * B"
proof (induction n)
  case 0
  then show ?case by simp
next
  case (Suc n)
  from Suc.prems(1) have fn: "0 \<le> f n" "f n \<le> B" by simp_all
  then have B: "0 \<le> B" by linarith
  have le: "int n * B \<le> int (Suc n) * B"
    using B by (simp add: algebra_simps)
  with Suc.prems(2) have "int n * B < 2 ^ 31" by linarith
  with Suc.IH Suc.prems(1) have ih: "0 \<le> somar_long f n" "somar_long f n \<le> int n * B"
    by simp_all
  have s: "int (Suc n) * B = int n * B + B"
    by (simp add: algebra_simps)
  have lo: "0 \<le> somar_long f n + f n" using ih fn by linarith
  have hi: "somar_long f n + f n \<le> int (Suc n) * B" using ih fn s by linarith
  have "envolver32 (somar_long f n + f n) = somar_long f n + f n"
    using lo hi Suc.prems(2) by (intro envolver32_id) linarith+
  with lo hi show ?case by simp
qed

lemma offsetDinamico_adc:
  assumes "amostragem_adc am"
  shows "0 \<le> offsetDinamico am" "offsetDinamico am \<le> 1023"
proof -
  have "0 \<le> somar_long (primeira am) amostras
        \<and> somar_long (primeira am) amostras \<le> int amostras * 1023"
    using assms by (intro somar_long_limitado) (simp_all add: amostragem_adc_def amostras_def)
  then have b: "0 \<le> real_of_int (somar_long (primeira am) amostras)"
    "real_of_int (somar_long (primeira am) amostras) \<le> 250 * 1023"
    by (simp_all add: amostras_def)
  from b(1) show "0 \<le> offsetDinamico am"
    by (simp add: offsetDinamico_def Let_def amostras_def)
  from b(2) show "offsetDinamico am \<le> 1023"
    by (simp add: offsetDinamico_def Let_def amostras_def)
qed

lemma quadrado_adc:
  assumes "amostragem_adc am" "i < amostras"
  shows "0 \<le> truncar ((real_of_int (segunda am i) - offsetDinamico am)
                       * (real_of_int (segunda am i) - offsetDinamico am))"
    "truncar ((real_of_int (segunda am i) - offsetDinamico am)
              * (real_of_int (segunda am i) - offsetDinamico am)) \<le> 1046529"
proof -
  define c where "c = real_of_int (segunda am i) - offsetDinamico am"
  from assms have r: "0 \<le> segunda am i" "segunda am i \<le> 1023"
    by (simp_all add: amostragem_adc_def)
  then have r': "0 \<le> real_of_int (segunda am i)" "real_of_int (segunda am i) \<le> 1023"
    by simp_all
  with offsetDinamico_adc [OF assms(1)] have "\<bar>c\<bar> \<le> 1023"
    unfolding c_def by linarith
  then have "\<bar>c\<bar> * \<bar>c\<bar> \<le> 1023 * 1023"
    by (intro mult_mono) simp_all
  then have q: "c * c \<le> 1046529" by (simp add: abs_mult_self_eq)
  have p: "0 \<le> c * c" by simp
  from p show "0 \<le> truncar ((real_of_int (segunda am i) - offsetDinamico am)
                       * (real_of_int (segunda am i) - offsetDinamico am))"
    unfolding c_def by (rule truncar_nao_negativo)
  from p q show "truncar ((real_of_int (segunda am i) - offsetDinamico am)
              * (real_of_int (segunda am i) - offsetDinamico am)) \<le> 1046529"
    unfolding c_def by (intro truncar_limitado) simp_all
qed

lemma somaQuadrados_adc: "amostragem_adc am \<Longrightarrow> 0 \<le> somaQuadrados am"
proof -
  assume a: "amostragem_adc am"
  have "0 \<le> somar_long (\<lambda>i. truncar ((real_of_int (segunda am i) - offsetDinamico am)
                                     * (real_of_int (segunda am i) - offsetDinamico am))) amostras
        \<and> somar_long (\<lambda>i. truncar ((real_of_int (segunda am i) - offsetDinamico am)
                                     * (real_of_int (segunda am i) - offsetDinamico am))) amostras
            \<le> int amostras * 1046529"
  proof (intro somar_long_limitado allI impI)
    fix i assume "i < amostras"
    then show "0 \<le> truncar ((real_of_int (segunda am i) - offsetDinamico am)
                       * (real_of_int (segunda am i) - offsetDinamico am))
          \<and> truncar ((real_of_int (segunda am i) - offsetDinamico am)
                       * (real_of_int (segunda am i) - offsetDinamico am)) \<le> 1046529"
      using quadrado_adc [OF a] by simp
  next
    show "int amostras * 1046529 < 2 ^ 31" by (simp add: amostras_def)
  qed
  then show ?thesis
    by (simp add: somaQuadrados_def Let_def)
qed

lemma lerTensao_nao_negativa: "amostragem_adc am \<Longrightarrow> 0 \<le> lerTensaoAC_RMS_comOffset am"
proof -
  assume "amostragem_adc am"
  then have "0 \<le> somaQuadrados am" by (rule somaQuadrados_adc)
  then have "0 \<le> sqrt (real_of_int (somaQuadrados am) / real amostras)"
    by simp
  then have "0 \<le> sqrt (real_of_int (somaQuadrados am) / real amostras) * 2.5 / 512 * calibrationFactor"
    by (simp add: calibrationFactor_def)
  then show ?thesis
    by (simp add: lerTensaoAC_RMS_comOffset_def Let_def)
qed

lemma mediaCalibracao_nao_negativa: "calibracao_adc ams \<Longrightarrow> 0 \<le> mediaCalibracao ams"
proof -
  assume a: "calibracao_adc ams"
  have "0 \<le> sum_list (map (\<lambda>i. lerTensaoAC_RMS_comOffset (ams i)) [0..<8])"
    using a by (intro sum_list_nonneg) (auto simp: calibracao_adc_def intro: lerTensao_nao_negativa)
  then show ?thesis
    by (simp add: mediaCalibracao_def)
qed

lemma somaQuadrados_exemplo: "somaQuadrados (amostragem_exemplo d) = envolver32 (250 * (d * d))"
proof -
  have o: "offsetDinamico (amostragem_exemplo d) = 512"
    by (simp add: offsetDinamico_def Let_def amostragem_exemplo_def somar_long_constante
        amostras_def envolver32_def)
  have "truncar (real_of_int d * real_of_int d) = d * d"
  proof -
    have "real_of_int d * real_of_int d = real_of_int (d * d)" by simp
    then show ?thesis by (simp only: truncar_def of_int_0_le_iff floor_of_int zero_le_square if_True)
  qed
  moreover have "segunda (amostragem_exemplo d) = (\<lambda>k. 512 + d)"
    by (simp add: amostragem_exemplo_def)
  ultimately show ?thesis
    by (simp add: somaQuadrados_def Let_def o somar_long_constante amostras_def)
qed

lemma leitura_exemplo:
  "lerTensaoAC_RMS_comOffset (amostragem_exemplo 2) = 605 / 256"
  by (simp add: lerTensaoAC_RMS_comOffset_def Let_def amostras_def somaQuadrados_exemplo
      envolver32_def calibrationFactor_def)

lemma media_exemplo:
  "mediaCalibracao (\<lambda>i. amostragem_exemplo 2) = 605 / 256"
  by (simp add: mediaCalibracao_def leitura_exemplo sum_list_triv)

lemma amostragem_exemplo_adc: "0 \<le> d \<Longrightarrow> d \<le> 511 \<Longrightarrow> amostragem_adc (amostragem_exemplo d)"
  by (simp add: amostragem_adc_def amostragem_exemplo_def)

lemma somaQuadrados_12bits: "somaQuadrados amostragem_12bits = - 102711046"
proof -
  have o: "offsetDinamico amostragem_12bits = 0"
    by (simp add: offsetDinamico_def Let_def amostragem_12bits_def somar_long_constante
        amostras_def envolver32_def)
  have "truncar (4095 * 4095) = 16769025"
    by (simp add: truncar_def)
  moreover have "segunda amostragem_12bits = (\<lambda>k. 4095)"
    by (simp add: amostragem_12bits_def)
  ultimately show ?thesis
    by (simp add: somaQuadrados_def Let_def o somar_long_constante amostras_def envolver32_def)
qed

lemma leitura_12bits: "lerTensaoAC_RMS_comOffset amostragem_12bits < - (605 / 256)"
proof -
  have "sqrt 4 < sqrt (102711046 / 250)"
    by (simp only: real_sqrt_less_iff)
  then have "2 < sqrt (102711046 / 250)" by simp
  moreover have "sqrt (real_of_int (- 102711046) / 250) = - sqrt (102711046 / 250)"
    by (simp add: real_sqrt_minus)
  ultimately have "sqrt (real_of_int (- 102711046) / 250) < - 2" by linarith
  then have "sqrt (real_of_int (- 102711046) / 250) * 2.5 / 512 * 242 < - 2 * 2.5 / 512 * 242"
    by simp
  then show ?thesis
    by (simp add: lerTensaoAC_RMS_comOffset_def Let_def somaQuadrados_12bits amostras_def
        calibrationFactor_def)
qed

lemma media_12bits: "mediaCalibracao (\<lambda>i. amostragem_12bits) < - (605 / 256)"
  using leitura_12bits by (simp add: mediaCalibracao_def sum_list_triv)

lemma ganhos_ajustarGanhos:
  "ganhoMin (ajustarGanhos vmin vmax st) =
     (if vmin > 0.1 then ((vmin + vmax) / 2) / vmin else ganhoMin st)"
  "ganhoMax (ajustarGanhos vmin vmax st) =
     (if vmax > 0.1 then ((vmin + vmax) / 2) / vmax else ganhoMax st)"
  by (simp_all add: ajustarGanhos_def Let_def)

lemma ganhos_autoCalibrar:
  "ganhoMin (autoCalibrar amsMin amsMax st) =
     ganhoMin (ajustarGanhos (mediaCalibracao amsMin) (mediaCalibracao amsMax) st)"
  "ganhoMax (autoCalibrar amsMin amsMax st) =
     ganhoMax (ajustarGanhos (mediaCalibracao amsMin) (mediaCalibracao amsMax) st)"
  by (simp_all add: autoCalibrar_def Let_def imprimir_def ganhos_ajustarGanhos)

lemma ajustarGanhos_positivos:
  assumes "0 \<le> vmin" "0 \<le> vmax" "0 < ganhoMin st" "0 < ganhoMax st"
  shows "0 < ganhoMin (ajustarGanhos vmin vmax st)" "0 < ganhoMax (ajustarGanhos vmin vmax st)"
proof -
  show "0 < ganhoMin (ajustarGanhos vmin vmax st)"
  proof (cases "vmin > 0.1")
    case True
    with assms have "0 < (vmin + vmax) / 2" "0 < vmin" by simp_all
    then have "0 < ((vmin + vmax) / 2) / vmin" by (rule divide_pos_pos)
    with True show ?thesis by (simp only: ganhos_ajustarGanhos if_True)
  next
    case False
    with assms show ?thesis by (simp add: ganhos_ajustarGanhos)
  qed
  show "0 < ganhoMax (ajustarGanhos vmin vmax st)"
  proof (cases "vmax > 0.1")
    case True
    with assms have "0 < (vmin + vmax) / 2" "0 < vmax" by simp_all
    then have "0 < ((vmin + vmax) / 2) / vmax" by (rule divide_pos_pos)
    with True show ?thesis by (simp only: ganhos_ajustarGanhos if_True)
  next
    case False
    with assms show ?thesis by (simp add: ganhos_ajustarGanhos)
  qed
qed

lemma autoCalibrar_positivos:
  assumes "calibracao_adc amsMin" "calibracao_adc amsMax" "0 < ganhoMin st" "0 < ganhoMax st"
  shows "0 < ganhoMin (autoCalibrar amsMin amsMax st)" "0 < ganhoMax (autoCalibrar amsMin amsMax st)"
  using ajustarGanhos_positivos [OF mediaCalibracao_nao_negativa [OF assms(1)]
      mediaCalibracao_nao_negativa [OF assms(2)] assms(3) assms(4)]
  by (simp_all only: ganhos_autoCalibrar)

lemma tratarBotoes_positivos:
  assumes "entrada_adc e" "0 < ganhoMin st" "0 < ganhoMax st"
  shows "0 < ganhoMin (tratarBotoes e st)" "0 < ganhoMax (tratarBotoes e st)"
proof -
  define st2 where "st2 = (let (mudou, st1) = verificarBotao (leituraBotao e) (agoraBotao e) st
     in if mudou \<and> estadoBotaoEstavel st1 = LOW then alternarModo st1 else st1)"
  define st3 where "st3 = snd (verificarBotaoCalib (leituraBotaoCalib e) (agoraBotaoCalib e) st2)"
  have g3: "ganhoMin st3 = ganhoMin st" "ganhoMax st3 = ganhoMax st"
    by (simp_all add: st3_def st2_def split_def Let_def verificarBotaoCalib_quadro
        alternarModo_quadro verificarBotao_quadro)
  have cases: "tratarBotoes e st = st3 \<or> tratarBotoes e st = autoCalibrar (calibMin e) (calibMax e) st3"
    by (simp add: tratarBotoes_def st3_def st2_def split_def Let_def)
  from assms g3 have p3: "0 < ganhoMin st3" "0 < ganhoMax st3" by simp_all
  from assms(1) have adc: "calibracao_adc (calibMin e)" "calibracao_adc (calibMax e)"
    by (simp_all add: entrada_adc_def)
  from cases p3 autoCalibrar_positivos [OF adc p3]
  show "0 < ganhoMin (tratarBotoes e st)" "0 < ganhoMax (tratarBotoes e st)"
    by metis+
qed

lemma loop_positivos:
  assumes "entrada_adc e" "0 < ganhoMin st" "0 < ganhoMax st"
  shows "0 < ganhoMin (loop e st)" "0 < ganhoMax (loop e st)"
  using tratarBotoes_positivos [OF assms]
  by (simp_all add: loop_def Let_def split_def cicloControle_quadro tempoDecorrido_quadro)

lemma executar_positivos:
  "list_all entrada_adc es \<Longrightarrow> 0 < ganhoMin st \<Longrightarrow> 0 < ganhoMax st \<Longrightarrow>
   0 < ganhoMin (executar es st) \<and> 0 < ganhoMax (executar es st)"
proof (induction es arbitrary: st)
  case Nil
  then show ?case by simp
next
  case (Cons e es)
  from Cons.prems(1) have e: "entrada_adc e" and es: "list_all entrada_adc es"
    by simp_all
  have "0 < ganhoMin (loop e st)" "0 < ganhoMax (loop e st)"
    using e Cons.prems(2) Cons.prems(3) by (rule loop_positivos)+
  with es have "0 < ganhoMin (executar es (loop e st)) \<and> 0 < ganhoMax (executar es (loop e st))"
    by (rule Cons.IH)
  then show ?case by simp
qed

lemma setup_prog_positivos:
  assumes "calibracao_adc a" "calibracao_adc b" "0 < ganhoMin st" "0 < ganhoMax st"
  shows "0 < ganhoMin (setup_prog l a b st)" "0 < ganhoMax (setup_prog l a b st)"
proof -
  define st2 where "st2 = (imprimir MsgBanner st)\<lparr>pino_bombaPin := LOW, pino_ledModo := LOW, pino_Bomba := LOW\<rparr>"
  have p2: "0 < ganhoMin st2" "0 < ganhoMax st2"
    using assms by (simp_all add: st2_def imprimir_def)
  have "setup_prog l a b st = st2 \<or> setup_prog l a b st = autoCalibrar a b st2"
    by (simp add: setup_prog_def autoCalibrarSeBotaoPressionado_def Let_def st2_def)
  with p2 autoCalibrar_positivos [OF assms(1) assms(2) p2]
  show "0 < ganhoMin (setup_prog l a b st)" "0 < ganhoMax (setup_prog l a b st)"
    by metis+
qed



lemma autoCalibrar_efeito:
  "autoCalibrar amsMin amsMax st =
     st\<lparr>ganhoMin := ganhoMin (ajustarGanhos (mediaCalibracao amsMin) (mediaCalibracao amsMax) st),
        ganhoMax := ganhoMax (ajustarGanhos (mediaCalibracao amsMin) (mediaCalibracao amsMax) st),
        serial := serial st @
          [MsgIniciandoAutocalibracao,
           MsgAutocalibrado
             (ganhoMin (ajustarGanhos (mediaCalibracao amsMin) (mediaCalibracao amsMax) st))
             (ganhoMax (ajustarGanhos (mediaCalibracao amsMin) (mediaCalibracao amsMax) st))]\<rparr>"
  by (simp add: autoCalibrar_def ajustarGanhos_def imprimir_def Let_def)

text \<open>
  Claim C4. \<open>autoCalibrar\<close> sets each channel's gain on its own: to the target (the mean
  of the two measured averages) divided by the channel's measured average when that
  average exceeds 0.1, and to its previous value otherwise. This holds for the averages
  the procedure measures and for any pair of values given to the assignment part. When
  the two averages are equal and above 0.1, both gains become 1. The function has no
  error branch, and each division is taken only with a divisor above 0.1: in every case
  the procedure ends with the two gains as described, its two serial lines added and
  nothing else changed.
\<close>

theorem autoCalibrar_ganhos:
  "ganhoMin (autoCalibrar amsMin amsMax st) =
     (if mediaCalibracao amsMin > 0.1
      then ((mediaCalibracao amsMin + mediaCalibracao amsMax) / 2) / mediaCalibracao amsMin
      else ganhoMin st)
   \<and> ganhoMax (autoCalibrar amsMin amsMax st) =
     (if mediaCalibracao amsMax > 0.1
      then ((mediaCalibracao amsMin + mediaCalibracao amsMax) / 2) / mediaCalibracao amsMax
      else ganhoMax st)
   \<and> ganhoMin (ajustarGanhos vmin vmax st) =
       (if vmin > 0.1 then ((vmin + vmax) / 2) / vmin else ganhoMin st)
   \<and> ganhoMax (ajustarGanhos vmin vmax st) =
       (if vmax > 0.1 then ((vmin + vmax) / 2) / vmax else ganhoMax st)
   \<and> (vmin = vmax \<and> vmin > 0.1 \<longrightarrow>
        ganhoMin (ajustarGanhos vmin vmax st) = 1 \<and> ganhoMax (ajustarGanhos vmin vmax st) = 1)
   \<and> (mediaCalibracao amsMin = mediaCalibracao amsMax \<and> mediaCalibracao amsMin > 0.1 \<longrightarrow>
        ganhoMin (autoCalibrar amsMin amsMax st) = 1 \<and> ganhoMax (autoCalibrar amsMin amsMax st) = 1)
   \<and> autoCalibrar amsMin amsMax st =
       st\<lparr>ganhoMin := ganhoMin (autoCalibrar amsMin amsMax st),
          ganhoMax := ganhoMax (autoCalibrar amsMin amsMax st),
          serial := serial st @
            [MsgIniciandoAutocalibracao,
             MsgAutocalibrado (ganhoMin (autoCalibrar amsMin amsMax st))
               (ganhoMax (autoCalibrar amsMin amsMax st))]\<rparr>"
proof -
  have "autoCalibrar amsMin amsMax st =
       st\<lparr>ganhoMin := ganhoMin (autoCalibrar amsMin amsMax st),
          ganhoMax := ganhoMax (autoCalibrar amsMin amsMax st),
          serial := serial st @
            [MsgIniciandoAutocalibracao,
             MsgAutocalibrado (ganhoMin (autoCalibrar amsMin amsMax st))
               (ganhoMax (autoCalibrar amsMin amsMax st))]\<rparr>"
    unfolding ganhos_autoCalibrar by (rule autoCalibrar_efeito)
  then show ?thesis
    by (simp add: ganhos_autoCalibrar ganhos_ajustarGanhos)
qed

text \<open>
  Equal averages of 5 V, and a calibration on two channels that both measure an RMS of
  two counts: the previous gains 1.3 and 0.7 are both replaced by 1.
\<close>

theorem autoCalibrar_ganhos_witness:
  "ganhoMin (ajustarGanhos 5 5 (estado_inicial\<lparr>ganhoMin := 1.3, ganhoMax := 0.7\<rparr>)) = 1
   \<and> ganhoMax (ajustarGanhos 5 5 (estado_inicial\<lparr>ganhoMin := 1.3, ganhoMax := 0.7\<rparr>)) = 1
   \<and> ganhoMin (autoCalibrar (\<lambda>i. amostragem_exemplo 2)
        (\<lambda>i. amostragem_exemplo 2)
        (estado_inicial\<lparr>ganhoMin := 1.3, ganhoMax := 0.7\<rparr>)) = 1
   \<and> ganhoMax (autoCalibrar (\<lambda>i. amostragem_exemplo 2)
        (\<lambda>i. amostragem_exemplo 2)
        (estado_inicial\<lparr>ganhoMin := 1.3, ganhoMax := 0.7\<rparr>)) = 1"
  using autoCalibrar_ganhos [of "\<lambda>i. amostragem_exemplo 2"
        "\<lambda>i. amostragem_exemplo 2"
        "estado_inicial\<lparr>ganhoMin := 1.3, ganhoMax := 0.7\<rparr>" 5 5]
  by (simp add: media_exemplo)

text \<open>
  Claim C7, as stated, fails: the gains are not positive at all times. \<^verbatim>\<open>somaQ\<close> is a
  32-bit \<^verbatim>\<open>long\<close>, and samples beyond the 10-bit range can make it wrap. Here the mode
  button is held at start-up and the upper probe's bursts read 0 throughout the first
  loop and 4095 throughout the second, as a 12-bit converter can deliver: the sum of
  squares \<open>250 * 4095\<^sup>2\<close> wraps to a negative value, the reading of that channel is not a
  non-negative RMS value (the code's \<^verbatim>\<open>sqrt\<close> returns NaN, the model's a negative
  number), the target inherits it, and the gain stored for the lower channel is not a
  positive number.
\<close>

theorem ganhos_positivos_contraexemplo:
  "somaQuadrados amostragem_12bits < 0
   \<and> \<not> 0 < ganhoMin (setup_prog LOW (\<lambda>i. amostragem_exemplo 2) (\<lambda>i. amostragem_12bits)
                        estado_inicial)"
proof -
  define vmin where "vmin = mediaCalibracao (\<lambda>i. amostragem_exemplo 2)"
  define vmax where "vmax = mediaCalibracao (\<lambda>i. amostragem_12bits)"
  have vmin: "vmin = 605 / 256" by (simp add: vmin_def media_exemplo)
  have vmax: "vmax < - (605 / 256)" unfolding vmax_def by (rule media_12bits)
  have g: "ganhoMin (setup_prog LOW (\<lambda>i. amostragem_exemplo 2) (\<lambda>i. amostragem_12bits)
              estado_inicial) = ((vmin + vmax) / 2) / vmin"
    by (simp add: setup_prog_def autoCalibrarSeBotaoPressionado_def Let_def ganhos_autoCalibrar
        ganhos_ajustarGanhos vmin_def vmax_def media_exemplo)
  have "(vmin + vmax) / 2 < 0" using vmin vmax by simp
  moreover have "0 < vmin" using vmin by simp
  ultimately have "((vmin + vmax) / 2) / vmin < 0" by (rule divide_neg_pos)
  then have "\<not> 0 < ganhoMin (setup_prog LOW (\<lambda>i. amostragem_exemplo 2) (\<lambda>i. amostragem_12bits)
                        estado_inicial)"
    unfolding g by simp
  then show ?thesis
    by (simp add: somaQuadrados_12bits)
qed

text \<open>
  Claim C7, amended. Provided every sample read during a calibration lies in the range
  of a 10-bit converter, 0 to 1023, both gains are positive whenever the program is
  between two iterations: they start at 1, and \<open>setup\<close> and every iteration of \<open>loop\<close> keep
  them positive. The only writer is \<open>autoCalibrar\<close>, which keeps positive gains positive,
  because with such samples the 32-bit sum of squares does not wrap, so every measured
  average is non-negative (a square root times positive constants), and a gain is
  replaced only by the quotient of a positive target and an average above 0.1.
\<close>

theorem ganhos_sempre_positivos:
  "(calibracao_adc a \<and> calibracao_adc b \<and> list_all entrada_adc es \<longrightarrow>
      0 < ganhoMin (executar es (setup_prog l a b estado_inicial))
      \<and> 0 < ganhoMax (executar es (setup_prog l a b estado_inicial)))
   \<and> ganhoMin estado_inicial = 1 \<and> ganhoMax estado_inicial = 1
   \<and> (calibracao_adc amsMin \<and> calibracao_adc amsMax \<and> 0 < ganhoMin st \<and> 0 < ganhoMax st \<longrightarrow>
        0 < ganhoMin (autoCalibrar amsMin amsMax st) \<and> 0 < ganhoMax (autoCalibrar amsMin amsMax st))
   \<and> (calibracao_adc amsMin \<longrightarrow> 0 \<le> mediaCalibracao amsMin)
   \<and> (ganhoMin (autoCalibrar amsMin amsMax st) = ganhoMin st
        \<or> 0.1 < mediaCalibracao amsMin
          \<and> ganhoMin (autoCalibrar amsMin amsMax st) =
                (mediaCalibracao amsMin + mediaCalibracao amsMax) / (2 * mediaCalibracao amsMin))
   \<and> (ganhoMax (autoCalibrar amsMin amsMax st) = ganhoMax st
        \<or> 0.1 < mediaCalibracao amsMax
          \<and> ganhoMax (autoCalibrar amsMin amsMax st) =
                (mediaCalibracao amsMin + mediaCalibracao amsMax) / (2 * mediaCalibracao amsMax))"
proof -
  have i: "0 < ganhoMin estado_inicial" "0 < ganhoMax estado_inicial"
    by (simp_all add: estado_inicial_def)
  have "0 < ganhoMin (executar es (setup_prog l a b estado_inicial))
      \<and> 0 < ganhoMax (executar es (setup_prog l a b estado_inicial))"
    if h: "calibracao_adc a" "calibracao_adc b" "list_all entrada_adc es"
    by (rule executar_positivos [OF h(3)]) (rule setup_prog_positivos [OF h(1) h(2) i])+
  moreover have "ganhoMin estado_inicial = 1 \<and> ganhoMax estado_inicial = 1"
    by (simp add: estado_inicial_def)
  moreover have "calibracao_adc amsMin \<and> calibracao_adc amsMax \<and> 0 < ganhoMin st \<and> 0 < ganhoMax st \<longrightarrow>
        0 < ganhoMin (autoCalibrar amsMin amsMax st) \<and> 0 < ganhoMax (autoCalibrar amsMin amsMax st)"
    using autoCalibrar_positivos [of amsMin amsMax st] by blast
  moreover have "calibracao_adc amsMin \<longrightarrow> 0 \<le> mediaCalibracao amsMin"
    using mediaCalibracao_nao_negativa [of amsMin] by blast
  moreover have "ganhoMin (autoCalibrar amsMin amsMax st) = ganhoMin st
        \<or> 0.1 < mediaCalibracao amsMin
          \<and> ganhoMin (autoCalibrar amsMin amsMax st) =
                (mediaCalibracao amsMin + mediaCalibracao amsMax) / (2 * mediaCalibracao amsMin)"
    by (simp add: ganhos_autoCalibrar ganhos_ajustarGanhos)
  moreover have "ganhoMax (autoCalibrar amsMin amsMax st) = ganhoMax st
        \<or> 0.1 < mediaCalibracao amsMax
          \<and> ganhoMax (autoCalibrar amsMin amsMax st) =
                (mediaCalibracao amsMin + mediaCalibracao amsMax) / (2 * mediaCalibracao amsMax)"
    by (simp add: ganhos_autoCalibrar ganhos_ajustarGanhos)
  ultimately show ?thesis
    by blast
qed

text \<open>
  A start-up with the mode button held, which calibrates on 10-bit samples, followed by
  one iteration of \<open>loop\<close>.
\<close>

theorem ganhos_sempre_positivos_witness:
  "calibracao_adc (\<lambda>i. amostragem_exemplo 2) \<and> calibracao_adc (\<lambda>i. amostragem_exemplo 4)
   \<and> list_all entrada_adc [entrada_desligar]
   \<and> 0 < ganhoMin (executar [entrada_desligar] (setup_prog LOW (\<lambda>i. amostragem_exemplo 2)
       (\<lambda>i. amostragem_exemplo 4) estado_inicial))
   \<and> 0 < ganhoMax (executar [entrada_desligar] (setup_prog LOW (\<lambda>i. amostragem_exemplo 2)
       (\<lambda>i. amostragem_exemplo 4) estado_inicial))
   \<and> 0 < ganhoMin estado_inicial \<and> 0 < ganhoMax estado_inicial
   \<and> 0 < ganhoMax (autoCalibrar (\<lambda>i. amostragem_exemplo 2)
       (\<lambda>i. amostragem_exemplo 4) estado_inicial)
   \<and> 0 \<le> mediaCalibracao (\<lambda>i. amostragem_exemplo 2)"
proof -
  have adc: "calibracao_adc (\<lambda>i. amostragem_exemplo 2)" "calibracao_adc (\<lambda>i. amostragem_exemplo 4)"
    by (simp_all add: calibracao_adc_def amostragem_exemplo_adc)
  then have e: "list_all entrada_adc [entrada_desligar]"
    by (simp add: entrada_adc_def entrada_desligar_def)
  show ?thesis
    using adc e ganhos_sempre_positivos [of "\<lambda>i. amostragem_exemplo 2"
       "\<lambda>i. amostragem_exemplo 4" "[entrada_desligar]" LOW
       "\<lambda>i. amostragem_exemplo 2" "\<lambda>i. amostragem_exemplo 4" estado_inicial]
    by simp
qed

section \<open>Iterations outside automatic mode\<close>





section \<open>The filter\<close>

lemma arred_par_erro: "\<bar>real_of_int (arred_par q) - q\<bar> \<le> 1 / 2"
  unfolding arred_par_def Let_def
  by (auto simp: abs_if) linarith+

lemma dois_powi_suc: "(2::real) powi (k + 1) = 2 * 2 powi k"
  by (simp add: power_int_add)

lemma dois_powi_pred: "(2::real) powi (k - 1) = 2 powi k / 2"
  by (simp add: power_int_diff)

lemma dois_powi_le_um: "k \<le> 0 \<Longrightarrow> (2::real) powi k \<le> 1"
  by (cases "k = 0") (simp_all add: power_int_def power_le_one field_simps)

lemma expoente_aux_abaixo:
  "0 \<le> x \<Longrightarrow> 2 powi (expoente_aux n x) \<le> x \<or> expoente_aux n x = - int n"
proof (induction n arbitrary: x)
  case 0
  then show ?case by simp
next
  case (Suc n)
  consider "2 \<le> x" | "x < 1" | "1 \<le> x" "x < 2" by linarith
  then show ?case
  proof cases
    case 1
    then have h: "0 \<le> x / 2" "1 \<le> x / 2" by simp_all
    from Suc.IH [OF h(1)] have "2 powi (expoente_aux n (x / 2)) \<le> x / 2"
    proof
      assume "2 powi expoente_aux n (x / 2) \<le> x / 2"
      then show ?thesis .
    next
      assume "expoente_aux n (x / 2) = - int n"
      then have "(2::real) powi expoente_aux n (x / 2) \<le> 1"
        by (simp add: dois_powi_le_um)
      with h(2) show ?thesis by linarith
    qed
    then have "2 powi (expoente_aux n (x / 2) + 1) \<le> x"
      by (simp add: dois_powi_suc)
    with 1 show ?thesis by simp
  next
    case 2
    from Suc.prems have h: "0 \<le> 2 * x" by simp
    from Suc.IH [OF h] show ?thesis
    proof
      assume "2 powi expoente_aux n (2 * x) \<le> 2 * x"
      then have "2 powi (expoente_aux n (2 * x) - 1) \<le> x"
        by (simp add: dois_powi_pred)
      with 2 show ?thesis by simp
    next
      assume "expoente_aux n (2 * x) = - int n"
      with 2 show ?thesis by simp
    qed
  next
    case 3
    then show ?thesis by simp
  qed
qed

lemma ulp32_positivo: "0 < ulp32 x"
  by (simp add: ulp32_def)

lemma ulp32_metade: "ulp32 x / 2 \<le> \<bar>x\<bar> / 2 ^ 24 + 1 / 2 ^ 150"
proof -
  define e where "e = expoente x"
  have d: "2 powi e \<le> \<bar>x\<bar> \<or> e = - 300"
    using expoente_aux_abaixo [of "\<bar>x\<bar>" 300] by (simp add: e_def expoente_def)
  show ?thesis
  proof (cases "- 126 \<le> e")
    case True
    with d have le: "2 powi e \<le> \<bar>x\<bar>" by auto
    from True have "ulp32 x = 2 powi (e - 23)"
      by (simp add: ulp32_def e_def max_def)
    also have "\<dots> = 2 powi e / 2 ^ 23"
      by (simp add: power_int_diff)
    finally have "ulp32 x / 2 = 2 powi e / 2 ^ 24" by simp
    also have "\<dots> \<le> \<bar>x\<bar> / 2 ^ 24"
      using le by (simp add: divide_right_mono)
    finally show ?thesis by simp
  next
    case False
    then have "ulp32 x = 2 powi (- 149)"
      by (simp add: ulp32_def e_def max_def)
    then have "ulp32 x / 2 = 1 / 2 ^ 150"
      by (simp add: power_int_minus field_simps)
    then show ?thesis by simp
  qed
qed

lemma arred32_erro: "\<bar>arred32 x - x\<bar> \<le> \<bar>x\<bar> / 2 ^ 24 + 1 / 2 ^ 150"
proof -
  define u where "u = ulp32 x"
  have u: "0 < u" by (simp add: u_def ulp32_positivo)
  have "arred32 x - x = (real_of_int (arred_par (x / u)) - x / u) * u"
    using u by (simp add: arred32_def u_def field_simps)
  then have "\<bar>arred32 x - x\<bar> = \<bar>real_of_int (arred_par (x / u)) - x / u\<bar> * u"
    using u by (simp add: abs_mult)
  also have "\<dots> \<le> 1 / 2 * u"
    using arred_par_erro [of "x / u"] u by (intro mult_right_mono) simp_all
  also have "\<dots> = ulp32 x / 2" by (simp add: u_def)
  also have "\<dots> \<le> \<bar>x\<bar> / 2 ^ 24 + 1 / 2 ^ 150" by (rule ulp32_metade)
  finally show ?thesis .
qed

lemma alpha_valor: "alpha = 13421773 / 67108864"
  unfolding alpha_def by code_simp

lemma um_menos_alpha_valor: "um_menos_alpha = 13421773 / 16777216"
  unfolding um_menos_alpha_def alpha_valor by code_simp

lemma atualizarFiltro_erro:
  "\<bar>atualizarFiltro v s - filtro_exato_spec v s\<bar> \<le> tolerancia v s"
proof -
  define a :: real where "a = 13421773 / 67108864"
  define b :: real where "b = 13421773 / 16777216"
  define p1 where "p1 = arred32 (a * v)"
  define p2 where "p2 = arred32 (b * s)"
  define r where "r = arred32 (p1 + p2)"
  define V where "V = \<bar>v\<bar>"
  define S where "S = \<bar>s\<bar>"
  define M where "M = max V S"
  define t :: real where "t = 1 / 2 ^ 150"
  have r: "atualizarFiltro v s = r"
    by (simp add: atualizarFiltro_def r_def p1_def p2_def a_def b_def alpha_valor
        um_menos_alpha_valor)
  have pos: "0 \<le> V" "0 \<le> S" "V \<le> M" "S \<le> M" "0 < t"
    by (simp_all add: V_def S_def M_def t_def)
  have av: "\<bar>a * v\<bar> = a * V" and bs: "\<bar>b * s\<bar> = b * S"
    by (simp_all add: abs_mult a_def b_def V_def S_def)
  have f1: "\<bar>p1 - a * v\<bar> \<le> a * V / 2 ^ 24 + t"
    using arred32_erro [of "a * v"] by (simp only: av p1_def t_def)
  have f2: "\<bar>p2 - b * s\<bar> \<le> b * S / 2 ^ 24 + t"
    using arred32_erro [of "b * s"] by (simp only: bs p2_def t_def)
  have f3: "\<bar>r - (p1 + p2)\<bar> \<le> \<bar>p1 + p2\<bar> / 2 ^ 24 + t"
    using arred32_erro [of "p1 + p2"] by (simp only: r_def t_def)
  have g1: "\<bar>p1 - a * v\<bar> \<le> 21 / 100 * M / 2 ^ 24 + t"
    using f1 pos by (simp add: a_def)
  have g2: "\<bar>p2 - b * s\<bar> \<le> 81 / 100 * M / 2 ^ 24 + t"
    using f2 pos by (simp add: b_def)
  have h1: "\<bar>p1\<bar> \<le> 21 / 100 * M + 21 / 100 * M / 2 ^ 24 + t"
  proof -
    have "\<bar>p1\<bar> \<le> \<bar>p1 - a * v\<bar> + \<bar>a * v\<bar>" by simp
    also have "\<bar>a * v\<bar> \<le> 21 / 100 * M" unfolding av using pos by (simp add: a_def)
    finally show ?thesis using g1 by linarith
  qed
  have h2: "\<bar>p2\<bar> \<le> 81 / 100 * M + 81 / 100 * M / 2 ^ 24 + t"
  proof -
    have "\<bar>p2\<bar> \<le> \<bar>p2 - b * s\<bar> + \<bar>b * s\<bar>" by simp
    also have "\<bar>b * s\<bar> \<le> 81 / 100 * M" unfolding bs using pos by (simp add: b_def)
    finally show ?thesis using g2 by linarith
  qed
  have h: "\<bar>p1 + p2\<bar> \<le> 103 / 100 * M + 2 * t"
  proof -
    have "\<bar>p1 + p2\<bar> \<le> \<bar>p1\<bar> + \<bar>p2\<bar>" by simp
    with h1 h2 pos show ?thesis by simp
  qed
  have g3: "\<bar>r - (p1 + p2)\<bar> \<le> 103 / 100 * M / 2 ^ 24 + 2 * t"
  proof -
    have "\<bar>p1 + p2\<bar> / 2 ^ 24 \<le> (103 / 100 * M + 2 * t) / 2 ^ 24"
      using h by (simp add: divide_right_mono)
    with f3 pos show ?thesis by simp
  qed
  have c1: "\<bar>a * v - 0.2 * v\<bar> \<le> 5 / 100 * M / 2 ^ 24"
  proof -
    have "\<bar>a * v - 0.2 * v\<bar> = \<bar>a - 0.2\<bar> * V"
      by (simp add: V_def abs_mult [symmetric] algebra_simps)
    also have "\<dots> \<le> 5 / 100 * M / 2 ^ 24"
      using pos by (simp add: a_def)
    finally show ?thesis .
  qed
  have c2: "\<bar>b * s - 0.8 * s\<bar> \<le> 20 / 100 * M / 2 ^ 24"
  proof -
    have "\<bar>b * s - 0.8 * s\<bar> = \<bar>b - 0.8\<bar> * S"
      by (simp add: S_def abs_mult [symmetric] algebra_simps)
    also have "\<dots> \<le> 20 / 100 * M / 2 ^ 24"
      using pos by (simp add: b_def)
    finally show ?thesis .
  qed
  have "\<bar>r - (0.2 * v + 0.8 * s)\<bar> \<le>
          \<bar>r - (p1 + p2)\<bar> + \<bar>p1 - a * v\<bar> + \<bar>p2 - b * s\<bar>
          + \<bar>a * v - 0.2 * v\<bar> + \<bar>b * s - 0.8 * s\<bar>"
    by linarith
  also have "\<dots> \<le> M / 2 ^ 22 + 4 * t"
    using g1 g2 g3 c1 c2 pos by simp
  finally show ?thesis
    by (simp add: r filtro_exato_spec_def tolerancia_def M_def V_def S_def t_def)
qed

lemma filtro_exato_entre:
  "(s \<le> v \<longrightarrow> s \<le> filtro_exato_spec v s \<and> filtro_exato_spec v s \<le> v)
   \<and> (v \<le> s \<longrightarrow> v \<le> filtro_exato_spec v s \<and> filtro_exato_spec v s \<le> s)
   \<and> \<bar>filtro_exato_spec v s - v\<bar> = 0.8 * \<bar>s - v\<bar>"
proof -
  have eq: "filtro_exato_spec v s - v = 0.8 * (s - v)"
    by (simp add: filtro_exato_spec_def)
  have "\<bar>filtro_exato_spec v s - v\<bar> = \<bar>0.8 * (s - v)\<bar>"
    by (rule arg_cong [OF eq])
  also have "\<dots> = \<bar>0.8\<bar> * \<bar>s - v\<bar>"
    by (rule abs_mult)
  also have "\<dots> = 0.8 * \<bar>s - v\<bar>"
    by simp
  finally have d: "\<bar>filtro_exato_spec v s - v\<bar> = 0.8 * \<bar>s - v\<bar>" .
  have "s \<le> v \<longrightarrow> s \<le> filtro_exato_spec v s \<and> filtro_exato_spec v s \<le> v"
    by (simp add: filtro_exato_spec_def)
  moreover have "v \<le> s \<longrightarrow> v \<le> filtro_exato_spec v s \<and> filtro_exato_spec v s \<le> s"
    by (simp add: filtro_exato_spec_def)
  ultimately show ?thesis
    using d by blast
qed

lemma atualizarFiltro_passo:
  "min v x - tolerancia v x \<le> atualizarFiltro v x
   \<and> atualizarFiltro v x \<le> max v x + tolerancia v x
   \<and> \<bar>atualizarFiltro v x - v\<bar> \<le> 0.8 * \<bar>x - v\<bar> + tolerancia v x"
proof -
  have e: "\<bar>atualizarFiltro v x - filtro_exato_spec v x\<bar> \<le> tolerancia v x"
    by (rule atualizarFiltro_erro)
  have d: "\<bar>filtro_exato_spec v x - v\<bar> = 0.8 * \<bar>x - v\<bar>"
    using filtro_exato_entre [of x v] by simp
  have lo: "min v x \<le> filtro_exato_spec v x" and hi: "filtro_exato_spec v x \<le> max v x"
    using filtro_exato_entre [of x v] by (auto simp: min_def max_def)
  from e lo have 1: "min v x - tolerancia v x \<le> atualizarFiltro v x" by linarith
  from e hi have 2: "atualizarFiltro v x \<le> max v x + tolerancia v x" by linarith
  have "\<bar>atualizarFiltro v x - v\<bar> \<le>
          \<bar>atualizarFiltro v x - filtro_exato_spec v x\<bar> + \<bar>filtro_exato_spec v x - v\<bar>"
    by linarith
  with e d have 3: "\<bar>atualizarFiltro v x - v\<bar> \<le> 0.8 * \<bar>x - v\<bar> + tolerancia v x"
    by linarith
  from 1 2 3 show ?thesis by simp
qed

lemma iterarFiltro_limitado:
  "\<bar>v\<bar> \<le> L \<Longrightarrow> \<bar>s\<bar> \<le> L \<Longrightarrow> \<bar>iterarFiltro n v s\<bar> \<le> 2 * L + 1"
proof (induction n)
  case 0
  then show ?case by simp
next
  case (Suc n)
  define x where "x = iterarFiltro n v s"
  have x: "\<bar>x\<bar> \<le> 2 * L + 1"
    unfolding x_def using Suc by simp
  have L: "0 \<le> L" using Suc.prems by linarith
  have t: "tolerancia v x \<le> (2 * L + 1) / 2 ^ 22 + 1 / 2 ^ 148"
  proof -
    have "max \<bar>v\<bar> \<bar>x\<bar> \<le> 2 * L + 1"
      using x Suc.prems L by simp
    then show ?thesis
      by (simp add: tolerancia_def divide_right_mono)
  qed
  have e: "\<bar>atualizarFiltro v x - filtro_exato_spec v x\<bar> \<le> tolerancia v x"
    by (rule atualizarFiltro_erro)
  have f: "\<bar>filtro_exato_spec v x\<bar> \<le> 0.2 * L + 0.8 * (2 * L + 1)"
  proof -
    have "\<bar>filtro_exato_spec v x\<bar> \<le> 0.2 * \<bar>v\<bar> + 0.8 * \<bar>x\<bar>"
      unfolding filtro_exato_spec_def by linarith
    moreover have "0.2 * \<bar>v\<bar> \<le> 0.2 * L" using Suc.prems by simp
    moreover have "0.8 * \<bar>x\<bar> \<le> 0.8 * (2 * L + 1)" using x by simp
    ultimately show ?thesis by linarith
  qed
  have "\<bar>atualizarFiltro v x\<bar> \<le> \<bar>atualizarFiltro v x - filtro_exato_spec v x\<bar> + \<bar>filtro_exato_spec v x\<bar>"
    by linarith
  with e f t L have "\<bar>atualizarFiltro v x\<bar> \<le> 2 * L + 1"
    by (simp add: field_simps)
  then show ?case by (simp add: x_def)
qed

text \<open>
  Claim C8, as stated, fails on the update the code computes: in single precision the two
  coefficients sum to more than 1. With the filter state and the constant input both at
  13, the first iterate is \<open>13631489 / 2 ^ 20\<close>, about 13.000001: it exceeds the input.
\<close>

theorem filtro_ultrapassa_contraexemplo:
  "(13::real) \<le> 13 \<and> 13 < iterarFiltro 1 13 13 \<and> iterarFiltro 1 13 13 = 13631489 / 1048576"
  by code_simp

text \<open>
  Claim C8, amended. For a constant input \<open>v\<close> and an initial state \<open>s\<close> of magnitude at
  most \<open>2 ^ 98\<close>, every iterate stays below \<open>2 ^ 100\<close> in magnitude (no overflow), and every
  update agrees with the exact update \<open>0.2 * v + 0.8 * x\<close> up to the rounding tolerance
  (\<open>1 / 2 ^ 22\<close> of the larger of \<open>\<bar>v\<bar>\<close> and \<open>\<bar>x\<bar>\<close>, plus \<open>1 / 2 ^ 148\<close>). So each iterate lies
  between the previous one and \<open>v\<close> up to that tolerance, and its distance to \<open>v\<close> is at
  most 0.8 times the previous distance plus that tolerance. Monotone convergence without
  overshoot holds of the exact update: its result lies between the state and the input,
  at 0.8 times the distance from the input.
\<close>

theorem filtro_ate_arredondamento:
  "\<bar>v\<bar> \<le> 2 ^ 98 \<and> \<bar>s\<bar> \<le> 2 ^ 98 \<Longrightarrow>
     \<bar>iterarFiltro n v s\<bar> \<le> 2 ^ 100
   \<and> \<bar>iterarFiltro (Suc n) v s - filtro_exato_spec v (iterarFiltro n v s)\<bar>
        \<le> tolerancia v (iterarFiltro n v s)
   \<and> min v (iterarFiltro n v s) - tolerancia v (iterarFiltro n v s) \<le> iterarFiltro (Suc n) v s
   \<and> iterarFiltro (Suc n) v s \<le> max v (iterarFiltro n v s) + tolerancia v (iterarFiltro n v s)
   \<and> \<bar>iterarFiltro (Suc n) v s - v\<bar>
        \<le> 0.8 * \<bar>iterarFiltro n v s - v\<bar> + tolerancia v (iterarFiltro n v s)
   \<and> (s \<le> v \<longrightarrow> s \<le> filtro_exato_spec v s \<and> filtro_exato_spec v s \<le> v)
   \<and> (v \<le> s \<longrightarrow> v \<le> filtro_exato_spec v s \<and> filtro_exato_spec v s \<le> s)
   \<and> \<bar>filtro_exato_spec v s - v\<bar> = 0.8 * \<bar>s - v\<bar>"
proof -
  assume h: "\<bar>v\<bar> \<le> 2 ^ 98 \<and> \<bar>s\<bar> \<le> 2 ^ 98"
  then have "\<bar>iterarFiltro n v s\<bar> \<le> 2 * 2 ^ 98 + 1"
    by (intro iterarFiltro_limitado) simp_all
  then have b: "\<bar>iterarFiltro n v s\<bar> \<le> 2 ^ 100" by simp
  show ?thesis
    using b atualizarFiltro_erro [of v "iterarFiltro n v s"]
      atualizarFiltro_passo [of v "iterarFiltro n v s"] filtro_exato_entre [of s v]
    by simp
qed

text \<open>
  The state and the input at 13: the iterate exceeds 13, by less than the tolerance.
\<close>

theorem filtro_ate_arredondamento_witness:
  "iterarFiltro 1 13 13 = 13631489 / 1048576
   \<and> \<bar>iterarFiltro 1 13 13 - 13\<bar> \<le> tolerancia 13 13
   \<and> iterarFiltro 1 13 13 \<le> 13 + tolerancia 13 13
   \<and> filtro_exato_spec 13 13 = 13"
proof -
  have v: "iterarFiltro 1 13 13 = 13631489 / 1048576"
    by code_simp
  have h: "\<bar>13::real\<bar> \<le> 2 ^ 98 \<and> \<bar>13::real\<bar> \<le> 2 ^ 98"
    by simp
  show ?thesis
    using v filtro_ate_arredondamento [OF h, of 0]
    by (simp add: filtro_exato_spec_def)
qed

section \<open>Start-up calibration\<close>

lemma calibrou_setup_prog:
  "calibrou (setup_prog leitura amsMin amsMax estado_inicial) = (leitura = LOW)"
  by (simp add: calibrou_def setup_prog_def autoCalibrarSeBotaoPressionado_def Let_def
      autoCalibrar_def ajustarGanhos_def imprimir_def estado_inicial_def)

text \<open>
  Claim C5, as stated, fails: calibration at start-up does not require the mode input to
  be held through a grace window. Here the input is low only from 400 ms to 700 ms
  after power-on and \<open>setup\<close> reads it at 600 ms: the calibration runs, although the
  input was not held for the two seconds.
\<close>

theorem calibracao_no_arranque_contraexemplo:
  "calibrou (arranque (\<lambda>t. \<not> (400 \<le> t \<and> t < 700)) 600
       (\<lambda>i. amostragem_exemplo 2)
       (\<lambda>i. amostragem_exemplo 4))
   \<and> \<not> mantido_na_janela_spec (\<lambda>t. \<not> (400 \<le> t \<and> t < 700))"
proof -
  have "\<not> mantido_na_janela_spec (\<lambda>t. \<not> (400 \<le> t \<and> t < 700))"
    unfolding mantido_na_janela_spec_def janela_spec_def
    by (simp add: Ball_def) (rule exI [of _ 0], simp)
  then show ?thesis
    by (simp add: arranque_def calibrou_setup_prog)
qed

text \<open>
  Claim C5, amended. At start-up the calibration runs exactly when the mode input reads
  active (low) at the one instant \<open>setup\<close> samples it; the level at any other instant
  has no effect on the outcome. Holding the input low through the first two seconds is
  therefore sufficient, when the sample falls in that window, but it is not necessary.
\<close>

theorem calibracao_no_arranque:
  "calibrou (arranque sinal instante amsMin amsMax) = (sinal instante = LOW)
   \<and> (sinal' instante = sinal instante \<longrightarrow>
        arranque sinal' instante amsMin amsMax = arranque sinal instante amsMin amsMax)
   \<and> (mantido_na_janela_spec sinal \<and> instante < janela_spec \<longrightarrow>
        calibrou (arranque sinal instante amsMin amsMax))"
  by (simp add: arranque_def calibrou_setup_prog mantido_na_janela_spec_def)

text \<open>
  An input low throughout calibrates, and so does, with the same resulting state, an
  input that is low only around the sample at 600 ms; an input high throughout does not.
\<close>

theorem calibracao_no_arranque_witness:
  "mantido_na_janela_spec (\<lambda>t. LOW)
   \<and> calibrou (arranque (\<lambda>t. LOW) 600 (\<lambda>i. amostragem_exemplo 2) (\<lambda>i. amostragem_exemplo 4))
   \<and> arranque (\<lambda>t. \<not> (400 \<le> t \<and> t < 700)) 600 (\<lambda>i. amostragem_exemplo 2) (\<lambda>i. amostragem_exemplo 4)
       = arranque (\<lambda>t. LOW) 600 (\<lambda>i. amostragem_exemplo 2) (\<lambda>i. amostragem_exemplo 4)
   \<and> \<not> calibrou (arranque (\<lambda>t. HIGH) 600 (\<lambda>i. amostragem_exemplo 2) (\<lambda>i. amostragem_exemplo 4))"
  using calibracao_no_arranque [of "\<lambda>t. LOW" 600 "\<lambda>i. amostragem_exemplo 2"
       "\<lambda>i. amostragem_exemplo 4" "\<lambda>t. \<not> (400 \<le> t \<and> t < 700)"]
     calibracao_no_arranque [of "\<lambda>t. HIGH" 600 "\<lambda>i. amostragem_exemplo 2"
       "\<lambda>i. amostragem_exemplo 4" "\<lambda>t. HIGH"]
  by (simp add: mantido_na_janela_spec_def janela_spec_def)

section \<open>Debounce\<close>

lemma verificarBotao_troca:
  "leitura \<noteq> ultimoEstadoLido st \<Longrightarrow>
   verificarBotao leitura agora st =
     (False, st\<lparr>ultimoTempoTroca := agora, ultimoEstadoLido := leitura\<rparr>)"
  by (simp add: verificarBotao_def Let_def tempoDebounce_def)

lemma verificarBotao_espera:
  "leitura = ultimoEstadoLido st \<Longrightarrow>
   agora - ultimoTempoTroca st \<le> tempoDebounce \<or> leitura = estadoBotaoEstavel st \<Longrightarrow>
   verificarBotao leitura agora st = (False, st)"
  by (auto simp add: verificarBotao_def Let_def not_less)

lemma verificarBotao_confirma:
  "leitura = ultimoEstadoLido st \<Longrightarrow> tempoDebounce < agora - ultimoTempoTroca st \<Longrightarrow>
   leitura \<noteq> estadoBotaoEstavel st \<Longrightarrow>
   verificarBotao leitura agora st = (True, st\<lparr>estadoBotaoEstavel := leitura\<rparr>)"
  by (simp add: verificarBotao_def Let_def)

lemma sondagens_rapidas:
  "ultimoEstadoLido st = anterior \<Longrightarrow>
   (case troca of None \<Rightarrow> estadoBotaoEstavel st = anterior | Some t \<Rightarrow> ultimoTempoTroca st = t) \<Longrightarrow>
   trocas_rapidas anterior troca ps \<Longrightarrow>
   fst (sondagens ps st) = replicate (length ps) False
   \<and> estadoBotaoEstavel (snd (sondagens ps st)) = estadoBotaoEstavel st"
proof (induction ps arbitrary: st anterior troca)
  case Nil
  then show ?case by simp
next
  case (Cons p ps)
  obtain leitura agora where p: "p = (leitura, agora)" by (cases p)
  show ?case
  proof (cases "leitura = anterior")
    case False
    define st1 where "st1 = st\<lparr>ultimoTempoTroca := agora, ultimoEstadoLido := leitura\<rparr>"
    from False Cons.prems(1) have v: "verificarBotao leitura agora st = (False, st1)"
      unfolding st1_def by (intro verificarBotao_troca) simp
    from False Cons.prems(3) have r: "trocas_rapidas leitura (Some agora) ps"
      by (simp add: p)
    have "fst (sondagens ps st1) = replicate (length ps) False
          \<and> estadoBotaoEstavel (snd (sondagens ps st1)) = estadoBotaoEstavel st1"
      by (rule Cons.IH [OF _ _ r]) (simp_all add: st1_def)
    then show ?thesis
      by (simp add: p v split_def st1_def)
  next
    case True
    from True Cons.prems(3) have r: "trocas_rapidas anterior troca ps"
      and w: "case troca of None \<Rightarrow> True | Some t \<Rightarrow> agora - t \<le> tempoDebounce"
      by (simp_all add: p)
    have "agora - ultimoTempoTroca st \<le> tempoDebounce \<or> leitura = estadoBotaoEstavel st"
      using Cons.prems(2) w True by (cases troca) simp_all
    with True Cons.prems(1) have v: "verificarBotao leitura agora st = (False, st)"
      by (intro verificarBotao_espera) simp_all
    have "fst (sondagens ps st) = replicate (length ps) False
          \<and> estadoBotaoEstavel (snd (sondagens ps st)) = estadoBotaoEstavel st"
      by (rule Cons.IH [OF Cons.prems(1) Cons.prems(2) r])
    then show ?thesis
      by (simp add: p v split_def)
  qed
qed

lemma trocas_rapidas_take:
  "trocas_rapidas anterior troca ps \<Longrightarrow> trocas_rapidas anterior troca (take n ps)"
proof (induction ps arbitrary: anterior troca n)
  case Nil
  then show ?case by simp
next
  case (Cons p ps)
  obtain leitura agora where p: "p = (leitura, agora)" by (cases p)
  show ?case
  proof (cases n)
    case 0
    then show ?thesis by simp
  next
    case (Suc m)
    with Cons show ?thesis by (auto simp add: p split: if_splits)
  qed
qed

lemma sondagens_estavel:
  "estadoBotaoEstavel st = r \<Longrightarrow> ultimoEstadoLido st = r \<Longrightarrow>
   sondagens (map (Pair r) ts) st = (replicate (length ts) False, st)"
proof (induction ts)
  case Nil
  then show ?case by simp
next
  case (Cons t ts)
  from Cons.prems have "verificarBotao r t st = (False, st)"
    by (intro verificarBotao_espera) simp_all
  with Cons show ?case by simp
qed

lemma sondagens_mantido:
  "r \<noteq> estadoBotaoEstavel st \<Longrightarrow> ultimoEstadoLido st = r \<Longrightarrow> ultimoTempoTroca st = c \<Longrightarrow>
   n = length (takeWhile (\<lambda>t. t - c \<le> tempoDebounce) ts) \<Longrightarrow>
   fst (sondagens (map (Pair r) ts) st) =
     replicate n False @ (if n < length ts then True # replicate (length ts - Suc n) False else [])
   \<and> estadoBotaoEstavel (snd (sondagens (map (Pair r) ts) st)) =
       (if n < length ts then r else estadoBotaoEstavel st)"
proof (induction ts arbitrary: n)
  case Nil
  then show ?case by simp
next
  case (Cons t ts)
  show ?case
  proof (cases "t - c \<le> tempoDebounce")
    case True
    with Cons.prems have v: "verificarBotao r t st = (False, st)"
      by (intro verificarBotao_espera) simp_all
    define m where "m = length (takeWhile (\<lambda>t. t - c \<le> tempoDebounce) ts)"
    from True Cons.prems(4) have n: "n = Suc m" by (simp add: m_def)
    have "fst (sondagens (map (Pair r) ts) st) =
            replicate m False @ (if m < length ts then True # replicate (length ts - Suc m) False else [])
          \<and> estadoBotaoEstavel (snd (sondagens (map (Pair r) ts) st)) =
              (if m < length ts then r else estadoBotaoEstavel st)"
      by (rule Cons.IH [OF Cons.prems(1) Cons.prems(2) Cons.prems(3) m_def])
    then show ?thesis
      by (simp add: v n split_def)
  next
    case False
    with Cons.prems have v: "verificarBotao r t st = (True, st\<lparr>estadoBotaoEstavel := r\<rparr>)"
      by (intro verificarBotao_confirma) (simp_all add: not_le)
    from False Cons.prems(4) have n: "n = 0" by simp
    have "sondagens (map (Pair r) ts) (st\<lparr>estadoBotaoEstavel := r\<rparr>) =
            (replicate (length ts) False, st\<lparr>estadoBotaoEstavel := r\<rparr>)"
      using Cons.prems(2) by (intro sondagens_estavel) simp_all
    then show ?thesis
      by (simp add: v n)
  qed
qed

lemma conta_um:
  "length (filter id (replicate n False @ True # replicate k False)) = 1"
  by simp

text \<open>
  Claim C9, for the mode button. Times are clock values of \<^verbatim>\<open>millis\<close>; differences are
  taken in 32-bit unsigned arithmetic, as the code takes them.

  \<^item> Rapid toggles: starting with the last level read equal to the stable level, if
    every poll that sees the level unchanged lies within 50 clock units of the poll that
    saw the latest change, then no poll reports a change and the stable level is the
    same after every prefix of the sequence.
  \<^item> A held level: if all polls read the level \<open>r\<close>, different from the stable level, then
    the polls report false while the clock is within 50 units of the reference instant,
    true at the first poll beyond it, and false at every later poll. The stable level
    becomes \<open>r\<close> at that poll. So when some poll lies beyond the window, exactly one poll
    reports a change.
\<close>

theorem debounce_verificarBotao:
  "(ultimoEstadoLido st = estadoBotaoEstavel st \<and> trocas_rapidas (ultimoEstadoLido st) None ps \<longrightarrow>
      fst (sondagens ps st) = replicate (length ps) False
      \<and> (\<forall>k. estadoBotaoEstavel (snd (sondagens (take k ps) st)) = estadoBotaoEstavel st))
   \<and> (r \<noteq> estadoBotaoEstavel st \<longrightarrow>
       (let c = instante_troca r ts st;
            n = length (takeWhile (\<lambda>t. t - c \<le> tempoDebounce) ts)
        in fst (sondagens (map (Pair r) ts) st) =
             replicate n False @
             (if n < length ts then True # replicate (length ts - Suc n) False else [])
           \<and> estadoBotaoEstavel (snd (sondagens (map (Pair r) ts) st)) =
               (if n < length ts then r else estadoBotaoEstavel st)
           \<and> ((\<exists>t \<in> set ts. tempoDebounce < t - c) \<longrightarrow>
                length (filter id (fst (sondagens (map (Pair r) ts) st))) = 1)))"
proof -
  have rapid: "fst (sondagens ps st) = replicate (length ps) False
      \<and> (\<forall>k. estadoBotaoEstavel (snd (sondagens (take k ps) st)) = estadoBotaoEstavel st)"
    if s: "ultimoEstadoLido st = estadoBotaoEstavel st"
      and t: "trocas_rapidas (ultimoEstadoLido st) None ps"
  proof -
    have "\<And>qs. trocas_rapidas (ultimoEstadoLido st) None qs \<Longrightarrow>
        fst (sondagens qs st) = replicate (length qs) False
        \<and> estadoBotaoEstavel (snd (sondagens qs st)) = estadoBotaoEstavel st"
      by (rule sondagens_rapidas [OF refl]) (simp_all add: s)
    with t trocas_rapidas_take [OF t] show ?thesis by blast
  qed
  have hold: "fst (sondagens (map (Pair r) ts) st) =
             replicate n False @
             (if n < length ts then True # replicate (length ts - Suc n) False else [])
           \<and> estadoBotaoEstavel (snd (sondagens (map (Pair r) ts) st)) =
               (if n < length ts then r else estadoBotaoEstavel st)"
    if d: "r \<noteq> estadoBotaoEstavel st"
      and c: "c = instante_troca r ts st"
      and n: "n = length (takeWhile (\<lambda>t. t - c \<le> tempoDebounce) ts)"
    for c n
  proof (cases "ultimoEstadoLido st = r")
    case True
    then have "ultimoTempoTroca st = c" by (simp add: c instante_troca_def)
    with d True n show ?thesis by (intro sondagens_mantido) simp_all
  next
    case False
    show ?thesis
    proof (cases ts)
      case Nil
      with n show ?thesis by simp
    next
      case (Cons t0 ts')
      with False have c0: "c = t0" by (simp add: c instante_troca_def)
      define st1 where "st1 = st\<lparr>ultimoTempoTroca := t0, ultimoEstadoLido := r\<rparr>"
      from False have v: "verificarBotao r t0 st = (False, st1)"
        unfolding st1_def by (intro verificarBotao_troca) simp
      define m where "m = length (takeWhile (\<lambda>t. t - c \<le> tempoDebounce) ts')"
      have n': "n = Suc m" by (simp add: n Cons c0 m_def)
      have "fst (sondagens (map (Pair r) ts') st1) =
             replicate m False @
             (if m < length ts' then True # replicate (length ts' - Suc m) False else [])
           \<and> estadoBotaoEstavel (snd (sondagens (map (Pair r) ts') st1)) =
               (if m < length ts' then r else estadoBotaoEstavel st1)"
        using d by (intro sondagens_mantido) (simp_all add: st1_def c0 m_def)
      then show ?thesis
        by (simp add: Cons v n' split_def st1_def)
    qed
  qed
  have once: "length (filter id (fst (sondagens (map (Pair r) ts) st))) = 1"
    if d: "r \<noteq> estadoBotaoEstavel st"
      and c: "c = instante_troca r ts st"
      and n: "n = length (takeWhile (\<lambda>t. t - c \<le> tempoDebounce) ts)"
      and e: "\<exists>t \<in> set ts. tempoDebounce < t - c"
    for c n
  proof -
    from e have "\<not> (\<forall>t \<in> set ts. t - c \<le> tempoDebounce)"
      by (auto simp: not_le)
    then have "takeWhile (\<lambda>t. t - c \<le> tempoDebounce) ts \<noteq> ts"
      by (simp add: takeWhile_eq_all_conv)
    moreover have "length (takeWhile (\<lambda>t. t - c \<le> tempoDebounce) ts) \<le> length ts"
      by (rule length_takeWhile_le)
    ultimately have "n < length ts"
      unfolding n using takeWhile_eq_take [of "\<lambda>t. t - c \<le> tempoDebounce" ts]
      by (metis le_neq_implies_less take_all_iff order_refl)
    with hold [OF d c n] show ?thesis by (simp add: conta_um)
  qed
  show ?thesis
    unfolding Let_def
    using rapid hold [OF _ refl refl] once [OF _ refl refl]
    by blast
qed

text \<open>
  Bounces 20, 5 and 50 units apart are ignored. A press first seen at clock value 1000
  is accepted at the poll at 1051, once. A press first seen six units before the clock
  wraps around is accepted at clock value 45, which is 51 units later.
\<close>

theorem debounce_verificarBotao_witness:
  "fst (sondagens [(LOW, 1000), (LOW, 1020), (HIGH, 1040), (LOW, 1045), (LOW, 1095)] estado_inicial)
     = [False, False, False, False, False]
   \<and> fst (sondagens (map (Pair LOW) [1000, 1020, 1050, 1051, 1100, 5000]) estado_inicial)
     = [False, False, False, True, False, False]
   \<and> estadoBotaoEstavel (snd (sondagens (map (Pair LOW) [1000, 1020, 1050, 1051, 1100, 5000])
        estado_inicial)) = LOW
   \<and> length (filter id (fst (sondagens (map (Pair LOW) [1000, 1020, 1050, 1051, 1100, 5000])
        estado_inicial))) = 1
   \<and> fst (sondagens (map (Pair LOW) [4294967290, 20, 44, 45, 60]) estado_inicial)
     = [False, False, False, True, False]"
  using debounce_verificarBotao [of estado_inicial
      "[(LOW, 1000), (LOW, 1020), (HIGH, 1040), (LOW, 1045), (LOW, 1095)]"
      LOW "[1000, 1020, 1050, 1051, 1100, 5000]"]
    debounce_verificarBotao [of estado_inicial "[]" LOW "[4294967290, 20, 44, 45, 60]"]
  by (simp add: estado_inicial_def instante_troca_def tempoDebounce_def Let_def)

end
